theory Spec2Isabelle
  imports Complex_Main
begin

section \<open>Python and NumPy values\<close>

text \<open>
  NumPy's \<open>float64\<close> values. A finite value is modelled by the real number it stands
  for; the two infinities and NaN are values of their own, with the arithmetic and the
  comparisons IEEE 754 gives them. Rounding, overflow to infinity and the sign of zero
  are not modelled (a division of a non-zero value by zero takes the sign of the
  numerator).
\<close>

datatype fl = Fin real | PInf | NInf | NaN

fun fl_neg :: "fl \<Rightarrow> fl" where
  "fl_neg (Fin a) = Fin (- a)"
| "fl_neg PInf = NInf"
| "fl_neg NInf = PInf"
| "fl_neg NaN = NaN"

fun fl_add :: "fl \<Rightarrow> fl \<Rightarrow> fl" where
  "fl_add (Fin a) (Fin b) = Fin (a + b)"
| "fl_add (Fin a) PInf = PInf"
| "fl_add (Fin a) NInf = NInf"
| "fl_add PInf (Fin b) = PInf"
| "fl_add PInf PInf = PInf"
| "fl_add PInf NInf = NaN"
| "fl_add NInf (Fin b) = NInf"
| "fl_add NInf NInf = NInf"
| "fl_add NInf PInf = NaN"
| "fl_add NaN y = NaN"
| "fl_add x NaN = NaN"

definition fl_sub :: "fl \<Rightarrow> fl \<Rightarrow> fl" where
  "fl_sub x y = fl_add x (fl_neg y)"

text \<open>The sign of a value that is not NaN, as \<open>-1\<close>, \<open>0\<close> or \<open>1\<close>.\<close>

fun fl_sign :: "fl \<Rightarrow> int" where
  "fl_sign (Fin a) = (if a < 0 then - 1 else if a = 0 then 0 else 1)"
| "fl_sign PInf = 1"
| "fl_sign NInf = - 1"
| "fl_sign NaN = 0"

definition signed_inf :: "int \<Rightarrow> fl" where
  "signed_inf s = (if s = 0 then NaN else if 0 < s then PInf else NInf)"

fun fl_mul :: "fl \<Rightarrow> fl \<Rightarrow> fl" where
  "fl_mul (Fin a) (Fin b) = Fin (a * b)"
| "fl_mul NaN y = NaN"
| "fl_mul x NaN = NaN"
| "fl_mul x y = signed_inf (fl_sign x * fl_sign y)"

fun fl_div :: "fl \<Rightarrow> fl \<Rightarrow> fl" where
  "fl_div (Fin a) (Fin b) = (if b = 0 then signed_inf (fl_sign (Fin a)) else Fin (a / b))"
| "fl_div NaN y = NaN"
| "fl_div x NaN = NaN"
| "fl_div (Fin a) y = Fin 0"
| "fl_div x (Fin b) = signed_inf (fl_sign x * (if b < 0 then - 1 else 1))"
| "fl_div x y = NaN"

text \<open>Comparisons: every comparison with NaN is false.\<close>

fun fl_lt :: "fl \<Rightarrow> fl \<Rightarrow> bool" where
  "fl_lt (Fin a) (Fin b) = (a < b)"
| "fl_lt (Fin a) PInf = True"
| "fl_lt NInf (Fin b) = True"
| "fl_lt NInf PInf = True"
| "fl_lt x y = False"

fun fl_le :: "fl \<Rightarrow> fl \<Rightarrow> bool" where
  "fl_le (Fin a) (Fin b) = (a \<le> b)"
| "fl_le NaN y = False"
| "fl_le x NaN = False"
| "fl_le x PInf = True"
| "fl_le NInf y = True"
| "fl_le x y = False"

definition fl_eq :: "fl \<Rightarrow> fl \<Rightarrow> bool" where
  "fl_eq x y = (x \<noteq> NaN \<and> x = y)"

fun isfinite :: "fl \<Rightarrow> bool" where
  "isfinite (Fin a) = True"
| "isfinite x = False"

fun log10 :: "fl \<Rightarrow> fl" where
  "log10 (Fin a) = (if a < 0 then NaN else if a = 0 then NInf else Fin (log 10 a))"
| "log10 PInf = PInf"
| "log10 NInf = NaN"
| "log10 NaN = NaN"

text \<open>\<open>np.sum\<close> and \<open>np.nanmean\<close> of the values of an array, listed in any order.\<close>

definition np_sum :: "fl list \<Rightarrow> fl" where
  "np_sum xs = foldr fl_add xs (Fin 0)"

definition nanmean :: "fl list \<Rightarrow> fl" where
  "nanmean xs =
     (let ys = filter (\<lambda>v. v \<noteq> NaN) xs
      in if ys = [] then NaN else fl_div (np_sum ys) (Fin (real (length ys))))"

text \<open>The exceptions of the Python code, with their messages.\<close>

datatype error =
    ValueError string
  | KeyError string
  | IndexError string
  | TypeError string
  | LibraryError string

text \<open>Python values of the arguments whose type the code checks at run time.\<close>

datatype pyval = PyBool bool | PyInt int | PyFloat real | PyStr string | PyNone

section \<open>Range-LUT shift estimation\<close>

text \<open>
  The interpolating spline of SciPy and the correlation coefficient of NumPy are
  library code: they are parameters of the model. A spline constructor takes the
  abscissae, the ordinates and the degree and returns the interpolator or raises; the
  interpolator is evaluated at any value.
\<close>

type_synonym spline1 = "fl list \<Rightarrow> fl list \<Rightarrow> nat \<Rightarrow> error + (fl \<Rightarrow> fl)"

text \<open>\<open>np.argmax\<close>: the first index of the maximum; a NaN counts as the maximum.\<close>

fun argmax_from :: "nat \<Rightarrow> fl \<Rightarrow> nat \<Rightarrow> fl list \<Rightarrow> nat" where
  "argmax_from best bv i [] = best"
| "argmax_from best bv i (v # vs) =
     (if bv = NaN then best
      else if v = NaN \<or> fl_lt bv v then argmax_from i v (Suc i) vs
      else argmax_from best bv (Suc i) vs)"

definition argmax :: "fl list \<Rightarrow> error + nat" where
  "argmax vs =
     (case vs of
        [] \<Rightarrow> Inl (ValueError ''attempt to get argmax of an empty sequence'')
      | v # ws \<Rightarrow> Inr (argmax_from 0 v 1 ws))"

text \<open>\<open>np.linspace(0, stop, num)\<close> for \<open>num > 0\<close>.\<close>

definition linspace0 :: "real \<Rightarrow> nat \<Rightarrow> real list" where
  "linspace0 stop num =
     (if num = 1 then [0]
      else map (\<lambda>j. real j * (stop / real (num - 1))) [0..<num])"

text \<open>
  \<open>est_shift(reference, test, oversampling=10)\<close>. The lags are
  \<open>0 .. len(test) - len(reference)\<close>; the list is empty when the test vector is the
  shorter one, and then \<open>np.linspace\<close> is called with a negative number of samples and
  raises.
\<close>

definition est_shift ::
  "spline1 \<Rightarrow> (fl list \<Rightarrow> fl list \<Rightarrow> fl) \<Rightarrow> fl list \<Rightarrow> fl list \<Rightarrow> nat \<Rightarrow> error + real" where
  "est_shift spline corrcoef reference test oversampling =
     (let lags = (if length test + 1 \<le> length reference then []
                  else [0..<length test - length reference + 1]);
          cc = map (\<lambda>lag. corrcoef reference (take (length reference) (drop lag test))) lags;
          n = length cc
      in if n = 0 then Inl (ValueError ''Number of samples, -9, must be non-negative.'')
         else
           (let x = map (\<lambda>k. Fin (real k)) [0..<n];
                xi = linspace0 (real n) ((n - 1) * oversampling + 1)
            in case spline x cc 3 of
                 Inl e \<Rightarrow> Inl e
               | Inr f \<Rightarrow>
                   (case argmax (map (\<lambda>v. f (Fin v)) xi) of
                      Inl e \<Rightarrow> Inl e
                    | Inr i \<Rightarrow> Inr (xi ! i - real (n div 2)))))"

text \<open>
  The search loop of \<open>noiseVectorMap\<close> (\<open>lutShift=True\<close>):

  \<^verbatim>\<open>xShiftPixel, deltaShift, ni = 0, np.inf, 0
while deltaShift > 1e-2 and ni < 10:
    ni += 1
    noiseVector = zInterpolator(xBins + xShiftPixel)
    deltaShift = est_shift(referencePattern, noiseVector)
    xShiftPixel += deltaShift\<close>

  The argument \<open>step\<close> is the body's call: the shift estimated for the noise vector
  resampled at the current shift.
\<close>

function shift_search ::
  "(real \<Rightarrow> error + real) \<Rightarrow> real \<Rightarrow> fl \<Rightarrow> nat \<Rightarrow> error + (real \<times> fl \<times> nat)" where
  "shift_search step xShiftPixel deltaShift ni =
     (if fl_lt (Fin (1 / 100)) deltaShift \<and> ni < 10 then
        (case step xShiftPixel of
           Inl e \<Rightarrow> Inl e
         | Inr d \<Rightarrow> shift_search step (xShiftPixel + d) (Fin d) (ni + 1))
      else Inr (xShiftPixel, deltaShift, ni))"
  by pat_completeness auto
termination
  by (relation "measure (\<lambda>(step, x, d, ni). 10 - ni)") auto

text \<open>The shift accumulated after \<open>k\<close> iterations of a body that never raises.\<close>

fun shift_after :: "(real \<Rightarrow> real) \<Rightarrow> nat \<Rightarrow> real" where
  "shift_after f 0 = 0"
| "shift_after f (Suc k) = shift_after f k + f (shift_after f k)"

text \<open>The shift delta that iteration \<open>k\<close> (counted from 1) estimates.\<close>

definition delta_at :: "(real \<Rightarrow> real) \<Rightarrow> nat \<Rightarrow> real" where
  "delta_at f k = f (shift_after f (k - 1))"

section \<open>Properties of the shift search\<close>

declare shift_search.simps [simp del]

lemma shift_search_converging:
  "shift_search (\<lambda>x. Inr (if x = 0 then 1 else 0)) 0 PInf 0 = Inr (1, Fin 0, 2)"
  by (subst shift_search.simps, simp)+

lemma shift_search_not_converging:
  "shift_search (\<lambda>x. Inr 1) 0 PInf 0 = Inr (10, Fin 1, 10)"
  by (subst shift_search.simps, simp)+

lemma shift_search_from:
  assumes st: "\<forall>x. step x = Inr (f x)"
  shows "k \<le> 10 \<Longrightarrow> (0 < k \<longrightarrow> d = Fin (delta_at f k)) \<Longrightarrow> (k = 0 \<longrightarrow> d = PInf) \<Longrightarrow>
     \<exists>n. k \<le> n \<and> 1 \<le> n \<and> n \<le> 10 \<and>
       shift_search step (shift_after f k) d k = Inr (shift_after f n, Fin (delta_at f n), n) \<and>
       (\<forall>j. k < j \<and> j < n \<longrightarrow> 1 / 100 < delta_at f j) \<and>
       (k < n \<longrightarrow> 0 < k \<longrightarrow> 1 / 100 < delta_at f k) \<and>
       (n < 10 \<longrightarrow> delta_at f n \<le> 1 / 100)"
proof (induction "10 - k" arbitrary: k d)
  case 0
  then have k: "k = 10" by simp
  with 0 have d: "d = Fin (delta_at f 10)" by simp
  have "shift_search step (shift_after f 10) d 10 = Inr (shift_after f 10, d, 10)"
    by (subst shift_search.simps) simp
  then show ?case
    by (intro exI[of _ 10]) (simp add: k d)
next
  case (Suc m)
  then have klt: "k < 10" by simp
  show ?case
  proof (cases "fl_lt (Fin (1 / 100)) d")
    case False
    with Suc.prems have kpos: "0 < k" by (cases "k = 0") auto
    with Suc.prems have d: "d = Fin (delta_at f k)" by simp
    from False d have le: "delta_at f k \<le> 1 / 100" by simp
    have "shift_search step (shift_after f k) d k = Inr (shift_after f k, d, k)"
      using False by (subst shift_search.simps) simp
    then show ?thesis
      using kpos klt le d by (intro exI[of _ k]) simp
  next
    case True
    have m: "m = 10 - Suc k" using Suc.hyps by simp
    have d': "Fin (f (shift_after f k)) = Fin (delta_at f (Suc k))"
      by (simp add: delta_at_def)
    from Suc.hyps(1)[OF m, of "Fin (f (shift_after f k))"] klt d'
    obtain n where n: "Suc k \<le> n" "n \<le> 10"
      "shift_search step (shift_after f (Suc k)) (Fin (f (shift_after f k))) (Suc k)
         = Inr (shift_after f n, Fin (delta_at f n), n)"
      "\<forall>j. Suc k < j \<and> j < n \<longrightarrow> 1 / 100 < delta_at f j"
      "Suc k < n \<longrightarrow> 1 / 100 < delta_at f (Suc k)"
      "n < 10 \<longrightarrow> delta_at f n \<le> 1 / 100"
      by auto
    have unfold: "shift_search step (shift_after f k) d k
        = shift_search step (shift_after f (Suc k)) (Fin (f (shift_after f k))) (Suc k)"
      using True klt st by (subst shift_search.simps) simp
    have gt: "0 < k \<longrightarrow> 1 / 100 < delta_at f k"
      using True Suc.prems by auto
    have mid: "\<forall>j. k < j \<and> j < n \<longrightarrow> 1 / 100 < delta_at f j"
    proof (intro allI impI)
      fix j assume j: "k < j \<and> j < n"
      show "1 / 100 < delta_at f j"
      proof (cases "j = Suc k")
        case True
        with j n(5) show ?thesis by simp
      next
        case False
        with j n(4) show ?thesis by simp
      qed
    qed
    show ?thesis
      apply (rule exI[of _ n])
      using n unfold gt mid by auto
  qed
qed

lemma shift_search_any:
  "k \<le> 10 \<Longrightarrow> (k = 0 \<longrightarrow> d = PInf) \<Longrightarrow>
   (case shift_search step x d k of
      Inl e \<Rightarrow> \<exists>y. step y = Inl e
    | Inr (x', d', n) \<Rightarrow> 1 \<le> n \<and> k \<le> n \<and> n \<le> 10 \<and> (n < 10 \<longrightarrow> \<not> fl_lt (Fin (1 / 100)) d'))"
proof (induction "10 - k" arbitrary: k d x)
  case 0
  then have "shift_search step x d k = Inr (x, d, k)"
    by (subst shift_search.simps) simp
  with 0 show ?case by simp
next
  case (Suc m)
  then have klt: "k < 10" by simp
  show ?case
  proof (cases "fl_lt (Fin (1 / 100)) d")
    case False
    with Suc.prems have "0 < k" by (cases "k = 0") auto
    moreover have "shift_search step x d k = Inr (x, d, k)"
      using False by (subst shift_search.simps) simp
    ultimately show ?thesis using False klt by simp
  next
    case True
    show ?thesis
    proof (cases "step x")
      case (Inl e)
      with True klt show ?thesis by (subst shift_search.simps) auto
    next
      case (Inr dl)
      have m: "m = 10 - Suc k" using Suc.hyps by simp
      have "shift_search step x d k = shift_search step (x + dl) (Fin dl) (Suc k)"
        using True klt Inr by (subst shift_search.simps) simp
      moreover from Suc.hyps(1)[OF m, of "Fin dl" "x + dl"] klt
      have "case shift_search step (x + dl) (Fin dl) (Suc k) of
              Inl e \<Rightarrow> \<exists>y. step y = Inl e
            | Inr (x', d', n) \<Rightarrow> 1 \<le> n \<and> Suc k \<le> n \<and> n \<le> 10 \<and> (n < 10 \<longrightarrow> \<not> fl_lt (Fin (1 / 100)) d')"
        by simp
      ultimately show ?thesis by (auto split: sum.splits)
    qed
  qed
qed

text \<open>
  Claim C5. The sub-pixel shift search of \<open>noiseVectorMap\<close> always ends: it runs its
  body at least once and at most 10 times, and it raises only when \<open>est_shift\<close> does.
  When \<open>est_shift\<close> never raises, the search stops at the first iteration whose shift
  delta is at most 0.01 (every earlier delta is above 0.01), or after the tenth
  iteration whatever its delta, and in both cases it returns the shift accumulated so
  far together with the last delta and the number of iterations.
\<close>

theorem shift_search_bounded:
  "(case shift_search step 0 PInf 0 of
      Inl e \<Rightarrow> \<exists>y. step y = Inl e
    | Inr (x, d, n) \<Rightarrow> 1 \<le> n \<and> n \<le> 10 \<and> (n < 10 \<longrightarrow> \<not> fl_lt (Fin (1 / 100)) d)) \<and>
   ((\<forall>x. step x = Inr (f x)) \<longrightarrow>
      (\<exists>n. 1 \<le> n \<and> n \<le> 10 \<and>
         shift_search step 0 PInf 0 = Inr (shift_after f n, Fin (delta_at f n), n) \<and>
         (\<forall>j. 1 \<le> j \<and> j < n \<longrightarrow> 1 / 100 < delta_at f j) \<and>
         (n < 10 \<longrightarrow> delta_at f n \<le> 1 / 100)))"
proof (intro conjI impI)
  show "case shift_search step 0 PInf 0 of
      Inl e \<Rightarrow> \<exists>y. step y = Inl e
    | Inr (x, d, n) \<Rightarrow> 1 \<le> n \<and> n \<le> 10 \<and> (n < 10 \<longrightarrow> \<not> fl_lt (Fin (1 / 100)) d)"
    using shift_search_any[of 0 PInf step 0] by (auto split: sum.splits)
next
  assume st: "\<forall>x. step x = Inr (f x)"
  from shift_search_from[OF st, of 0 PInf]
  obtain n where "1 \<le> n" "n \<le> 10"
     "shift_search step 0 PInf 0 = Inr (shift_after f n, Fin (delta_at f n), n)"
     "\<forall>j. 0 < j \<and> j < n \<longrightarrow> 1 / 100 < delta_at f j"
     "n < 10 \<longrightarrow> delta_at f n \<le> 1 / 100"
    by auto
  then show "\<exists>n. 1 \<le> n \<and> n \<le> 10 \<and>
         shift_search step 0 PInf 0 = Inr (shift_after f n, Fin (delta_at f n), n) \<and>
         (\<forall>j. 1 \<le> j \<and> j < n \<longrightarrow> 1 / 100 < delta_at f j) \<and>
         (n < 10 \<longrightarrow> delta_at f n \<le> 1 / 100)"
    by (intro exI[of _ n]) auto
qed

theorem shift_search_bounded_witness:
  "(\<forall>x::real. (Inr (if x = 0 then 1 else 0) :: error + real) = Inr (if x = 0 then 1 else 0)) \<and>
   (\<exists>n. 1 \<le> n \<and> n \<le> 10 \<and>
      shift_search (\<lambda>x. Inr (if x = 0 then 1 else 0)) 0 PInf 0
        = Inr (shift_after (\<lambda>x. if x = 0 then 1 else 0) n,
               Fin (delta_at (\<lambda>x. if x = 0 then 1 else 0) n), n))"
  using shift_search_bounded [of "\<lambda>x. Inr (if x = 0 then 1 else 0)" "\<lambda>x. if x = 0 then 1 else 0"]
  by auto


section \<open>Orbit interpolation\<close>








text \<open>The first exception of a list of results, or all the values.\<close>

fun collect :: "(error + 'a) list \<Rightarrow> error + 'a list" where
  "collect [] = Inr []"
| "collect (Inl e # rs) = Inl e"
| "collect (Inr v # rs) = (case collect rs of Inl e \<Rightarrow> Inl e | Inr vs \<Rightarrow> Inr (v # vs))"





subsection \<open>Properties\<close>


lemma collect_Inr: "collect rs = Inr vs \<Longrightarrow> rs = map Inr vs"
  by (induction rs arbitrary: vs rule: collect.induct) (auto split: sum.splits)

lemma collect_all_Inr: "collect (map Inr vs) = Inr vs"
  by (induction vs) auto

































section \<open>The product and its rasters\<close>

text \<open>
  Exceptions propagate: the first call that raises ends the computation.
\<close>

definition and_then :: "error + 'a \<Rightarrow> ('a \<Rightarrow> error + 'b) \<Rightarrow> error + 'b" where
  "and_then r f = (case r of Inl e \<Rightarrow> Inl e | Inr v \<Rightarrow> f v)"

fun fold_err :: "('a \<Rightarrow> 's \<Rightarrow> error + 's) \<Rightarrow> 'a list \<Rightarrow> 's \<Rightarrow> error + 's" where
  "fold_err f [] s = Inr s"
| "fold_err f (a # as) s = and_then (f a s) (fold_err f as)"

text \<open>
  A dense raster is indexed by line and pixel; every raster of a product has the
  shape \<open>self.shape()\<close>, which the rasters of the model share instead of carrying
  their own. A mask assignment \<open>a[mask] = b[mask]\<close> for rasters, and \<open>a[mask] = v\<close>
  for a scalar:
\<close>

type_synonym raster = "nat \<Rightarrow> nat \<Rightarrow> fl"
type_synonym indexmap = "nat \<Rightarrow> nat \<Rightarrow> nat"

definition assign_where :: "(nat \<Rightarrow> nat \<Rightarrow> bool) \<Rightarrow> raster \<Rightarrow> raster \<Rightarrow> raster" where
  "assign_where cond b a = (\<lambda>y x. if cond y x then b y x else a y x)"

definition fill_where :: "(nat \<Rightarrow> nat \<Rightarrow> bool) \<Rightarrow> fl \<Rightarrow> raster \<Rightarrow> raster" where
  "fill_where cond v a = (\<lambda>y x. if cond y x then v else a y x)"

text \<open>The values of a raster of the given shape, line by line.\<close>

definition pixels :: "nat \<times> nat \<Rightarrow> raster \<Rightarrow> fl list" where
  "pixels sh a = concat (map (\<lambda>y. map (a y) [0..<snd sh]) [0..<fst sh])"

datatype obsMode = IW | EW

text \<open>\<open>{'IW':3, 'EW':5}[self.obsMode]\<close> and \<open>range(1, n+1)\<close>\<close>

definition numberOfSubswaths :: "obsMode \<Rightarrow> nat" where
  "numberOfSubswaths m = (case m of IW \<Rightarrow> 3 | EW \<Rightarrow> 5)"

definition subswaths :: "obsMode \<Rightarrow> nat list" where
  "subswaths m = [1..<numberOfSubswaths m + 1]"

text \<open>\<open>'%s%s' % (self.obsMode, iSW)\<close>, for the subswath numbers 1 to 5.\<close>

definition subswathID :: "obsMode \<Rightarrow> nat \<Rightarrow> string" where
  "subswathID m iSW =
     (case m of IW \<Rightarrow> ''IW'' | EW \<Rightarrow> ''EW'') @
     (if iSW = 1 then ''1'' else if iSW = 2 then ''2'' else if iSW = 3 then ''3''
      else if iSW = 4 then ''4'' else ''5'')"

text \<open>
  One \<open>swathBounds\<close> rectangle of a subswath. The source keeps one list per field and
  zips them; the annotation's line and sample numbers are not negative.
\<close>

record swathBound =
  firstAzimuthLine :: nat
  firstRangeSample :: nat
  lastAzimuthLine :: nat
  lastRangeSample :: nat

text \<open>
  A calibration vector or a noise range vector: its line and its samples, each a
  pixel with the value annotated there (\<open>sigmaNought\<close> or \<open>noiseRangeLut\<close>; the source
  keeps the pixels and the values in two lists of the same length).
\<close>

record sparseVector =
  line :: int
  samples :: "(nat \<times> fl) list"

text \<open>
  A noise azimuth block: its rectangle and its look-up table. \<open>get_DOM_nodeValue\<close>
  returns a scalar instead of a list for a single annotated value.
\<close>

datatype azimuthLut = ScalarLut fl | VectorLut "(fl \<times> fl) list"

record noiseAzimuthBlock = swathBound +
  noiseAzimuthLut :: azimuthLut

text \<open>
  The file of denoising coefficients of the platform, for one polarization: a
  dictionary that may lack any of its four fields. Scaling and balancing parameters
  are keyed by subswath and then by the version string; extra scaling parameters by
  subswath, with the SNR axis under the key \<open>'SNNR'\<close>.
\<close>

record denoParams =
  noiseScalingParameters :: "(string \<rightharpoonup> (string \<rightharpoonup> fl)) option"
  powerBalancingParameters :: "(string \<rightharpoonup> (string \<rightharpoonup> fl)) option"
  extraScalingParameters :: "(string \<rightharpoonup> fl list) option"
  noiseVarianceParameters :: "(string \<rightharpoonup> fl) option"

text \<open>
  SciPy, NumPy and the string formatting of Python are parameters of the model.
  \<open>RectBivariateSpline\<close> takes the pixel axis, the line axis and the values, one row
  per line, and is always called with \<open>kx=1, ky=1\<close>; its interpolator is evaluated at
  a pixel and a line. The two \<open>convolve\<close> fields are \<open>scipy.ndimage.convolve\<close> with the
  constant kernel \<open>np.ones((w,w)) / w**2\<close>, on a raster of floats and on the raster of
  subswath indices, whose result has the integer type of its input.
\<close>

type_synonym spline2 = "fl list \<Rightarrow> fl list \<Rightarrow> fl list list \<Rightarrow> error + (fl \<Rightarrow> fl \<Rightarrow> fl)"

record library =
  InterpolatedUnivariateSpline :: spline1
  RectBivariateSpline :: spline2
  corrcoef :: "fl list \<Rightarrow> fl list \<Rightarrow> fl"
  convolve :: "nat \<times> nat \<Rightarrow> raster \<Rightarrow> nat \<Rightarrow> raster"
  convolve_index :: "nat \<times> nat \<Rightarrow> indexmap \<Rightarrow> nat \<Rightarrow> indexmap"
  format_1f :: "real \<Rightarrow> string"

text \<open>
  What the methods of \<open>Sentinel1Image\<close> read from the object: attributes set by the
  constructor, the tables that the \<open>import_*\<close> methods parse from the annotation of a
  polarization (a polarization the product does not have raises), the band of
  digital numbers, and the rasters and interpolators of the antenna and scalloping
  models, which are taken as given. None of the methods modelled here assigns to an
  attribute of the object, so no state is passed on.
\<close>

record Sentinel1Image =
  obsMode :: obsMode
  shape :: "nat \<times> nat"
  IPFversion :: real
  satID :: string
  sensingDate :: nat
  DN :: "string \<Rightarrow> error + indexmap"
  import_swathBounds :: "string \<Rightarrow> error + (string \<Rightarrow> swathBound list)"
  import_calibrationVector :: "string \<Rightarrow> error + sparseVector list"
  import_noiseVector ::
    "string \<Rightarrow> error + (sparseVector list \<times> (string \<Rightarrow> noiseAzimuthBlock list))"
  annotatedElevationAngleIntp :: "string \<Rightarrow> error + (fl \<Rightarrow> fl \<Rightarrow> fl)"
  elevationAntennaPatternInterpolator :: "string \<Rightarrow> error + (fl \<Rightarrow> fl \<Rightarrow> fl)"
  rangeSpreadingLossInterpolator :: "string \<Rightarrow> error + (fl \<Rightarrow> fl \<Rightarrow> fl)"
  scallopingGainMap :: "string \<Rightarrow> error + raster"
  load_denoParams :: "string \<Rightarrow> error + denoParams"

subsection \<open>Subswath index map\<close>

text \<open>\<open>subswathIndexMap[fal:lal+1, frs:lrs+1] = iSW\<close>\<close>

definition assign_rect :: "nat \<Rightarrow> swathBound \<Rightarrow> indexmap \<Rightarrow> indexmap" where
  "assign_rect iSW b m =
     (\<lambda>y x. if firstAzimuthLine b \<le> y \<and> y \<le> lastAzimuthLine b \<and>
               firstRangeSample b \<le> x \<and> x \<le> lastRangeSample b
            then iSW else m y x)"

definition subswathIndexMap :: "Sentinel1Image \<Rightarrow> string \<Rightarrow> error + indexmap" where
  "subswathIndexMap img polarization =
     and_then (import_swathBounds img polarization) (\<lambda>swathBounds.
       Inr (foldl (\<lambda>m iSW. foldl (\<lambda>m b. assign_rect iSW b m) m
                               (swathBounds (subswathID (obsMode img) iSW)))
                  (\<lambda>y x. 0) (subswaths (obsMode img))))"

subsection \<open>Sparse vectors to dense rasters\<close>

text \<open>\<open>min\<close> and \<open>max\<close> of a Python list raise on an empty list.\<close>

definition py_min :: "nat list \<Rightarrow> error + nat" where
  "py_min xs = (case xs of [] \<Rightarrow> Inl (ValueError ''min() arg is an empty sequence'')
                | x # r \<Rightarrow> Inr (foldl min x r))"

definition py_max :: "nat list \<Rightarrow> error + nat" where
  "py_max xs = (case xs of [] \<Rightarrow> Inl (ValueError ''max() arg is an empty sequence'')
                | x # r \<Rightarrow> Inr (foldl max x r))"

text \<open>
  \<open>np.gradient\<close> of a vector: one-sided differences at the two ends, central
  differences inside; it raises on fewer than two elements. \<open>np.diff\<close> and \<open>np.mean\<close>.
\<close>

definition np_gradient :: "fl list \<Rightarrow> error + fl list" where
  "np_gradient a =
     (let n = length a in
      if n < 2 then
        Inl (ValueError ''Shape of array too small to calculate a numerical gradient'')
      else Inr (map (\<lambda>i. if i = 0 then fl_sub (a ! 1) (a ! 0)
                          else if i = n - 1 then fl_sub (a ! (n - 1)) (a ! (n - 2))
                          else fl_div (fl_sub (a ! (i + 1)) (a ! (i - 1))) (Fin 2))
                    [0..<n]))"

definition np_diff :: "fl list \<Rightarrow> fl list" where
  "np_diff a = map (\<lambda>i. fl_sub (a ! (i + 1)) (a ! i)) [0..<length a - 1]"

definition np_mean :: "fl list \<Rightarrow> fl" where
  "np_mean a = (if a = [] then NaN else fl_div (np_sum a) (Fin (real (length a))))"

text \<open>
  The validity of the samples of one vector on line \<open>y\<close>:

  \<^verbatim>\<open>valid = (subswathIndexMap[y,x]==iSW) * (z > 0)
valid[np.gradient(x)==0] = False      # noiseVectorMap only\<close>

  The index raises when the line or a pixel is outside the raster.
\<close>

definition valid_samples ::
  "nat \<times> nat \<Rightarrow> indexmap \<Rightarrow> nat \<Rightarrow> bool \<Rightarrow> sparseVector \<Rightarrow> error + (nat \<times> fl) list" where
  "valid_samples sh swi iSW useGradient v =
     (let y = nat (line v); x = map fst (samples v) in
      if fst sh \<le> y \<or> (\<exists>p \<in> set x. snd sh \<le> p) then
        Inl (IndexError ''index is out of bounds'')
      else
        and_then (if useGradient then np_gradient (map (\<lambda>p. Fin (real p)) x)
                  else Inr (map (\<lambda>p. Fin 1) x)) (\<lambda>g.
          Inr (map fst (filter (\<lambda>((p, z), gp). swi y p = iSW \<and> fl_lt (Fin 0) z
                                    \<and> \<not> fl_eq gp (Fin 0))
                          (zip (samples v) g)))))"

text \<open>
  One row of \<open>zi\<close> in \<open>calibrationVectorMap\<close> and in \<open>noiseVectorMap\<close> without
  \<open>lutShift\<close>: a vector with no valid sample is skipped (\<open>continue\<close>) and its row stays
  NaN.
\<close>

definition nan_row :: "nat list \<Rightarrow> fl list" where
  "nan_row xBins = map (\<lambda>b. NaN) xBins"

definition interp_row ::
  "library \<Rightarrow> nat \<times> nat \<Rightarrow> indexmap \<Rightarrow> nat \<Rightarrow> bool \<Rightarrow> nat list \<Rightarrow> sparseVector \<Rightarrow> error + fl list" where
  "interp_row lib sh swi iSW useGradient xBins v =
     and_then (valid_samples sh swi iSW useGradient v) (\<lambda>valid.
       if valid = [] then Inr (nan_row xBins)
       else
         and_then (InterpolatedUnivariateSpline lib (map (\<lambda>(p, z). Fin (real p)) valid)
                     (map snd valid) 3) (\<lambda>f.
           Inr (map (\<lambda>b. f (Fin (real b))) xBins)))"

text \<open>
  One row of \<open>zi\<close> in \<open>noiseVectorMap\<close> with \<open>lutShift\<close>: the reference pattern over
  \<open>xBins[buf:-buf]\<close> with \<open>buf = 150\<close>, the shift search, the conversion of the shift
  to the elevation angle and back to a shift of each pixel, and the noise vector
  interpolated at the shifted pixels.
\<close>

definition shifted_row ::
  "library \<Rightarrow> (fl \<Rightarrow> fl \<Rightarrow> fl) \<times> (fl \<Rightarrow> fl \<Rightarrow> fl) \<times> (fl \<Rightarrow> fl \<Rightarrow> fl) \<Rightarrow>
   nat \<times> nat \<Rightarrow> indexmap \<Rightarrow> nat \<Rightarrow> nat list \<Rightarrow> sparseVector \<Rightarrow> error + fl list" where
  "shifted_row lib intp sh swi iSW xBins v =
     (case intp of (annotatedElevationAngle, elevationAntennaPattern, rangeSpreadingLoss) \<Rightarrow>
      and_then (valid_samples sh swi iSW True v) (\<lambda>valid.
       if valid = [] then Inr (nan_row xBins)
       else
         (let y = Fin (real_of_int (line v));
              px = (\<lambda>b. Fin (real b));
              referencePattern =
                map (\<lambda>b. (let r = fl_div (fl_div (Fin 1) (elevationAntennaPattern y (px b)))
                                          (rangeSpreadingLoss y (px b))
                          in fl_mul r r))
                    (drop 150 (take (length xBins - 150) xBins));
              spline = InterpolatedUnivariateSpline lib (map (\<lambda>(p, z). px p) valid) (map snd valid) 3
          in and_then spline (\<lambda>zInterpolator.
             and_then (shift_search
                         (\<lambda>xShiftPixel.
                            est_shift (InterpolatedUnivariateSpline lib) (corrcoef lib)
                              referencePattern
                              (map (\<lambda>b. zInterpolator (Fin (real b + xShiftPixel))) xBins) 10)
                         0 PInf 0) (\<lambda>(xShiftPixel, deltaShift, ni).
             (let angle = map (\<lambda>b. annotatedElevationAngle y (px b)) xBins;
                  meanElevationAngleIncrement = np_mean (np_diff angle);
                  xShiftAngle = fl_mul meanElevationAngleIncrement (Fin xShiftPixel)
              in and_then (np_gradient angle) (\<lambda>g.
                 and_then spline (\<lambda>f.
                   Inr (map (\<lambda>(b, gb). f (fl_add (px b) (fl_div xShiftAngle gb)))
                            (zip xBins g))))))))))"

text \<open>
  The body of the loop over the subswaths, up to the interpolator across the lines:
  the vectors of the subswath's line range, their rows, the rows whose sum is finite,
  and the bilinear spline over them.
\<close>

definition swath_interpolator ::
  "library \<Rightarrow> swathBound list \<Rightarrow> sparseVector list \<Rightarrow>
   (nat list \<Rightarrow> sparseVector \<Rightarrow> error + fl list) \<Rightarrow> error + (fl \<Rightarrow> fl \<Rightarrow> fl)" where
  "swath_interpolator lib swathBound vectors row =
     and_then (py_min (map firstAzimuthLine swathBound)) (\<lambda>minLine.
     and_then (py_max (map lastAzimuthLine swathBound)) (\<lambda>maxLine.
     and_then (py_min (map firstRangeSample swathBound)) (\<lambda>minSample.
     and_then (py_max (map lastRangeSample swathBound)) (\<lambda>maxSample.
       (let selected = filter (\<lambda>v. int minLine \<le> line v \<and> line v \<le> int maxLine) vectors;
            xBins = [minSample..<maxSample + 1]
        in and_then (collect (map (row xBins) selected)) (\<lambda>zi.
             (let valid = filter (\<lambda>(v, r). isfinite (np_sum r)) (zip selected zi)
              in RectBivariateSpline lib (map (\<lambda>b. Fin (real b)) xBins)
                   (map (\<lambda>(v, r). Fin (real_of_int (line v))) valid)
                   (map snd valid))))))))"

text \<open>
  \<^verbatim>\<open>valid = (subswathIndexMap==iSW)
vectorMap[valid] = interpFunc(np.arange(self.shape()[1]),
                              np.arange(self.shape()[0])).T[valid]\<close>
\<close>

definition assign_swath :: "indexmap \<Rightarrow> nat \<Rightarrow> (fl \<Rightarrow> fl \<Rightarrow> fl) \<Rightarrow> raster \<Rightarrow> raster" where
  "assign_swath swi iSW interpFunc vectorMap =
     assign_where (\<lambda>y x. swi y x = iSW) (\<lambda>y x. interpFunc (Fin (real x)) (Fin (real y)))
       vectorMap"

definition nan_raster :: raster where
  "nan_raster = (\<lambda>y x. NaN)"

definition calibrationVectorMap :: "library \<Rightarrow> Sentinel1Image \<Rightarrow> string \<Rightarrow> error + raster" where
  "calibrationVectorMap lib img polarization =
     and_then (import_calibrationVector img polarization) (\<lambda>calibrationVector.
     and_then (import_swathBounds img polarization) (\<lambda>swathBounds.
     and_then (subswathIndexMap img polarization) (\<lambda>swi.
       fold_err
         (\<lambda>iSW vectorMap.
            and_then (swath_interpolator lib (swathBounds (subswathID (obsMode img) iSW))
                        calibrationVector (interp_row lib (shape img) swi iSW False))
              (\<lambda>interpFunc. Inr (assign_swath swi iSW interpFunc vectorMap)))
         (subswaths (obsMode img)) nan_raster)))"

text \<open>
  The azimuth part of \<open>noiseVectorMap\<close>, for one block:

  \<^verbatim>\<open>if not isinstance(y, list):
    noiseVectorMap[yBins, xs:xe+1] *= z
else:
    noiseVectorMap[yBins, xs:xe+1] *= ( InterpolatedUnivariateSpline(
        y, z, k=1)(yBins)[:,np.newaxis] * np.ones(xe-xs+1) )\<close>

  The rows \<open>yBins\<close> are indexed one by one and raise outside the raster; the slice of
  the pixels is cut at the raster's width, and then no longer has the width of the
  right-hand side of the second form (unless that width is 1).
\<close>

definition apply_azimuth_block ::
  "library \<Rightarrow> nat \<times> nat \<Rightarrow> noiseAzimuthBlock \<Rightarrow> raster \<Rightarrow> error + raster" where
  "apply_azimuth_block lib sh blk vectorMap =
     (let xs = firstRangeSample blk; xe = lastRangeSample blk;
          ys = firstAzimuthLine blk; ye = lastAzimuthLine blk;
          inside = (\<lambda>y x. ys \<le> y \<and> y \<le> ye \<and> xs \<le> x \<and> x \<le> xe)
      in if ys \<le> ye \<and> fst sh \<le> ye then Inl (IndexError ''index is out of bounds'')
         else
           (case noiseAzimuthLut blk of
              ScalarLut z \<Rightarrow>
                Inr (assign_where inside (\<lambda>y x. fl_mul (vectorMap y x) z) vectorMap)
            | VectorLut yz \<Rightarrow>
                and_then (InterpolatedUnivariateSpline lib (map fst yz) (map snd yz) 1) (\<lambda>f.
                  if xe + 1 < xs then Inl (ValueError ''negative dimensions are not allowed'')
                  else if xs < xe \<and> snd sh \<le> xe then
                    Inl (ValueError ''operands could not be broadcast together'')
                  else Inr (assign_where inside
                              (\<lambda>y x. fl_mul (vectorMap y x) (f (Fin (real y)))) vectorMap))))"

definition noiseVectorMap ::
  "library \<Rightarrow> Sentinel1Image \<Rightarrow> string \<Rightarrow> bool \<Rightarrow> error + raster" where
  "noiseVectorMap lib img polarization lutShift =
     and_then (import_noiseVector img polarization) (\<lambda>(noiseRangeVector, noiseAzimuthVector).
     and_then (import_swathBounds img polarization) (\<lambda>swathBounds.
     and_then (subswathIndexMap img polarization) (\<lambda>swi.
     and_then
       (if lutShift then
          and_then (annotatedElevationAngleIntp img polarization) (\<lambda>ann.
          and_then (elevationAntennaPatternInterpolator img polarization) (\<lambda>eap.
          and_then (rangeSpreadingLossInterpolator img polarization) (\<lambda>rsl.
            Inr (\<lambda>iSW. shifted_row lib (ann, eap, rsl) (shape img) swi iSW))))
        else Inr (\<lambda>iSW. interp_row lib (shape img) swi iSW True)) (\<lambda>row.
     and_then
       (fold_err
          (\<lambda>iSW vectorMap.
             and_then (swath_interpolator lib (swathBounds (subswathID (obsMode img) iSW))
                         noiseRangeVector (row iSW))
               (\<lambda>interpFunc. Inr (assign_swath swi iSW interpFunc vectorMap)))
          (subswaths (obsMode img)) nan_raster) (\<lambda>rangeMap.
       fold_err
         (\<lambda>iSW. fold_err (apply_azimuth_block lib (shape img))
                   (noiseAzimuthVector (subswathID (obsMode img) iSW)))
         (subswaths (obsMode img)) rangeMap)))))"

subsection \<open>Raw sigma nought and noise-equivalent sigma nought\<close>

text \<open>Element-wise operations on rasters.\<close>

definition raster_map2 :: "(fl \<Rightarrow> fl \<Rightarrow> fl) \<Rightarrow> raster \<Rightarrow> raster \<Rightarrow> raster" where
  "raster_map2 f a b = (\<lambda>y x. f (a y x) (b y x))"

text \<open>
  \<^verbatim>\<open>DN2 = np.power(self['DN_' + polarization].astype(np.uint32), 2)
sigma0 = DN2 / np.power(self.calibrationVectorMap(polarization), 2)\<close>
\<close>

definition rawSigma0Map :: "library \<Rightarrow> Sentinel1Image \<Rightarrow> string \<Rightarrow> error + raster" where
  "rawSigma0Map lib img polarization =
     and_then (DN img polarization) (\<lambda>dn.
     and_then (calibrationVectorMap lib img polarization) (\<lambda>cal.
       Inr (\<lambda>y x. fl_div (Fin (real (((dn y x mod 2 ^ 32) ^ 2) mod 2 ^ 32)))
                         (fl_mul (cal y x) (cal y x)))))"

text \<open>The noise calibration factors written in \<open>rawNoiseEquivalentSigma0Map\<close>.\<close>

definition noiseCalibrationFactor :: "obsMode \<Rightarrow> nat \<Rightarrow> real" where
  "noiseCalibrationFactor m iSW =
     (case m of
        IW \<Rightarrow> (if iSW = 1 then 596583803 / 10000 else if iSW = 2 then 5273443872 / 100000
               else 597586889 / 10000)
      | EW \<Rightarrow> (if iSW = 1 then 5606587 / 100 else if iSW = 2 then 5655976 / 100
               else if iSW = 3 then 4495639 / 100 else if iSW = 4 then 4632429 / 100
               else 4350568 / 100))"

definition prescale :: "obsMode \<Rightarrow> nat \<Rightarrow> fl" where
  "prescale m iSW = Fin ((case m of IW \<Rightarrow> 474 | EW \<Rightarrow> 1087) ^ 2 * noiseCalibrationFactor m iSW)"

definition rawNoiseEquivalentSigma0Map ::
  "library \<Rightarrow> Sentinel1Image \<Rightarrow> string \<Rightarrow> bool \<Rightarrow> error + raster" where
  "rawNoiseEquivalentSigma0Map lib img polarization lutShift =
     and_then (noiseVectorMap lib img polarization lutShift) (\<lambda>noise.
     and_then (calibrationVectorMap lib img polarization) (\<lambda>cal.
       (let noiseEquivalentSigma0 = raster_map2 fl_div noise (raster_map2 fl_mul cal cal)
        in if fl_lt (fl_mul (Fin 10) (log10 (nanmean (pixels (shape img) noiseEquivalentSigma0))))
                    (Fin (- 40))
           then
             and_then (subswathIndexMap img polarization) (\<lambda>swi.
               Inr (foldl (\<lambda>n iSW. assign_where (\<lambda>y x. swi y x = iSW)
                                       (\<lambda>y x. fl_mul (n y x) (prescale (obsMode img) iSW)) n)
                          noiseEquivalentSigma0 (subswaths (obsMode img))))
           else Inr noiseEquivalentSigma0)))"

subsection \<open>Denoising coefficients\<close>

text \<open>A dictionary look-up raises \<open>KeyError\<close> on a missing key.\<close>

definition lookup :: "(string \<rightharpoonup> 'v) \<Rightarrow> string \<Rightarrow> error + 'v" where
  "lookup d k = (case d k of None \<Rightarrow> Inl (KeyError k) | Some v \<Rightarrow> Inr v)"

text \<open>The lines that \<open>import_denoisingCoefficients\<close> prints.\<close>

datatype warning = MissingEntry string string | MissingField string

text \<open>
  The four dictionaries that \<open>import_denoisingCoefficients\<close> returns, and what it
  has printed.
\<close>

record coefficients =
  noiseScaling :: "string \<rightharpoonup> fl"
  powerBalancing :: "string \<rightharpoonup> fl"
  extraScaling :: "string \<rightharpoonup> fl list"
  noiseVariance :: "string \<rightharpoonup> fl"
  printed :: "warning list"

text \<open>\<open>np.linspace(-30,+30,601)\<close> and \<open>np.ones(601)\<close>\<close>

definition default_SNNR :: "fl list" where
  "default_SNNR = map (\<lambda>k. Fin (- 30 + real k / 10)) [0..<601]"

definition default_extraScaling :: "fl list" where
  "default_extraScaling = replicate 601 (Fin 1)"

text \<open>
  The version of the look-up: the special case of S1B, IPF 2.72, from
  2017-01-16T13:42:34 (the sensing date is the number that its digits
  \<open>YYYYmmddHHMMSS\<close> in the file name spell).
\<close>

definition coefficient_version :: "Sentinel1Image \<Rightarrow> real" where
  "coefficient_version img =
     (if satID img = ''S1B'' \<and> IPFversion img = 272 / 100 \<and> 20170116134234 \<le> sensingDate img
      then 28 / 10 else IPFversion img)"

text \<open>
  The body of the loop over the subswaths, one dictionary after the other. A \<open>try\<close>
  with a bare \<open>except\<close> turns every exception of its look-ups into the default, and
  the default is also taken when the file lacks the field.
\<close>

definition import_noiseScaling ::
  "denoParams \<Rightarrow> string \<Rightarrow> string \<Rightarrow> coefficients \<Rightarrow> coefficients" where
  "import_noiseScaling denoParams version sid c =
     (case noiseScalingParameters denoParams of
        Some d \<Rightarrow>
          (case and_then (lookup d sid) (\<lambda>byVersion. lookup byVersion version) of
             Inr v \<Rightarrow> c\<lparr>noiseScaling := (noiseScaling c)(sid \<mapsto> v)\<rparr>
           | Inl e \<Rightarrow> c\<lparr>noiseScaling := (noiseScaling c)(sid \<mapsto> Fin 1),
                       printed := printed c @ [MissingEntry ''noise scaling'' sid]\<rparr>)
      | None \<Rightarrow> c\<lparr>noiseScaling := (noiseScaling c)(sid \<mapsto> Fin 1),
                  printed := printed c @ [MissingField ''noiseScalingParameters'']\<rparr>)"

definition import_powerBalancing ::
  "denoParams \<Rightarrow> string \<Rightarrow> string \<Rightarrow> coefficients \<Rightarrow> coefficients" where
  "import_powerBalancing denoParams version sid c =
     (case powerBalancingParameters denoParams of
        Some d \<Rightarrow>
          (case and_then (lookup d sid) (\<lambda>byVersion. lookup byVersion version) of
             Inr v \<Rightarrow> c\<lparr>powerBalancing := (powerBalancing c)(sid \<mapsto> v)\<rparr>
           | Inl e \<Rightarrow> c\<lparr>powerBalancing := (powerBalancing c)(sid \<mapsto> Fin 0),
                       printed := printed c @ [MissingEntry ''power balancing'' sid]\<rparr>)
      | None \<Rightarrow> c\<lparr>powerBalancing := (powerBalancing c)(sid \<mapsto> Fin 0),
                  printed := printed c @ [MissingField ''powerBalancingParameters'']\<rparr>)"

text \<open>
  \<^verbatim>\<open>try:
    extraScalingParameters[subswathID] = (
        denoParams['extraScalingParameters'][subswathID])
    extraScalingParameters['SNR'] = (
        denoParams['extraScalingParameters']['SNNR'])
except:
    extraScalingParameters['SNNR'] = np.linspace(-30,+30,601)
    extraScalingParameters[subswathID] = np.ones(601)\<close>
\<close>

definition import_extraScaling :: "denoParams \<Rightarrow> string \<Rightarrow> coefficients \<Rightarrow> coefficients" where
  "import_extraScaling denoParams sid c =
     (case extraScalingParameters denoParams of
        Some d \<Rightarrow>
          (case and_then (lookup d sid) (\<lambda>curve.
                  and_then (lookup d ''SNNR'') (\<lambda>snnr. Inr (curve, snnr))) of
             Inr (curve, snnr) \<Rightarrow>
               c\<lparr>extraScaling := (extraScaling c)(sid \<mapsto> curve, ''SNR'' \<mapsto> snnr)\<rparr>
           | Inl e \<Rightarrow>
               c\<lparr>extraScaling := (extraScaling c)(''SNNR'' \<mapsto> default_SNNR,
                                                     sid \<mapsto> default_extraScaling),
                  printed := printed c @ [MissingEntry ''extra scaling'' sid]\<rparr>)
      | None \<Rightarrow>
          c\<lparr>extraScaling := (extraScaling c)(''SNNR'' \<mapsto> default_SNNR,
                                                sid \<mapsto> default_extraScaling),
             printed := printed c @ [MissingField ''extraScalingParameters'']\<rparr>)"

definition import_noiseVariance :: "denoParams \<Rightarrow> string \<Rightarrow> coefficients \<Rightarrow> coefficients" where
  "import_noiseVariance denoParams sid c =
     (case noiseVarianceParameters denoParams of
        Some d \<Rightarrow>
          (case lookup d sid of
             Inr v \<Rightarrow> c\<lparr>noiseVariance := (noiseVariance c)(sid \<mapsto> v)\<rparr>
           | Inl e \<Rightarrow> c\<lparr>noiseVariance := (noiseVariance c)(sid \<mapsto> Fin 0),
                       printed := printed c @ [MissingEntry ''noise variance'' sid]\<rparr>)
      | None \<Rightarrow> c\<lparr>noiseVariance := (noiseVariance c)(sid \<mapsto> Fin 0),
                  printed := printed c @ [MissingField ''noiseVarianceParameters'']\<rparr>)"

definition import_subswath ::
  "denoParams \<Rightarrow> string \<Rightarrow> string \<Rightarrow> coefficients \<Rightarrow> coefficients" where
  "import_subswath denoParams version sid c =
     import_noiseVariance denoParams sid
       (import_extraScaling denoParams sid
          (import_powerBalancing denoParams version sid
             (import_noiseScaling denoParams version sid c)))"

text \<open>
  Before the loop the dictionaries are empty, but for
  \<open>extraScalingParameters['SNR'] = []\<close>.
\<close>

definition initial_coefficients :: coefficients where
  "initial_coefficients =
     \<lparr> noiseScaling = Map.empty, powerBalancing = Map.empty,
       extraScaling = [''SNR'' \<mapsto> []], noiseVariance = Map.empty, printed = [] \<rparr>"

definition import_denoisingCoefficients ::
  "library \<Rightarrow> Sentinel1Image \<Rightarrow> string \<Rightarrow> error + coefficients" where
  "import_denoisingCoefficients lib img polarization =
     and_then (load_denoParams img polarization) (\<lambda>denoParams.
       Inr (foldl (\<lambda>c iSW. import_subswath denoParams (format_1f lib (coefficient_version img))
                              (subswathID (obsMode img) iSW) c)
                  initial_coefficients (subswaths (obsMode img))))"

subsection \<open>Modified noise-equivalent sigma nought\<close>

text \<open>
  \<open>adaptiveNoiseScaling\<close>: the local means, the SNR in decibels, and for each subswath
  the spline of the extra scaling curve over the SNR axis, applied where the SNR is
  finite and the local mean of the subswath index is the subswath's.
\<close>

definition adaptiveNoiseScaling ::
  "library \<Rightarrow> nat \<times> nat \<Rightarrow> obsMode \<Rightarrow> raster \<Rightarrow> raster \<Rightarrow> indexmap \<Rightarrow> (string \<rightharpoonup> fl list) \<Rightarrow> nat \<Rightarrow>
   error + raster" where
  "adaptiveNoiseScaling lib sh m sigma0 noiseEquivalentSigma0 swi extra windowSize =
     (let meanSigma0 = convolve lib sh sigma0 windowSize;
          meanNEsigma0 = convolve lib sh noiseEquivalentSigma0 windowSize;
          meanSWindex = convolve_index lib sh swi windowSize;
          SNR = (\<lambda>y x. fl_mul (Fin 10)
                   (log10 (fl_sub (fl_div (meanSigma0 y x) (meanNEsigma0 y x)) (Fin 1))))
      in fold_err
           (\<lambda>iSW n.
              and_then (lookup extra ''SNR'') (\<lambda>snr.
              and_then (lookup extra (subswathID m iSW)) (\<lambda>curve.
              and_then (InterpolatedUnivariateSpline lib snr curve 3) (\<lambda>interpFunc.
                Inr (assign_where (\<lambda>y x. isfinite (SNR y x) \<and> meanSWindex y x = iSW)
                       (\<lambda>y x. fl_mul (n y x) (interpFunc (SNR y x))) n)))))
           (subswaths m) noiseEquivalentSigma0)"

definition modifiedNoiseEquivalentSigma0Map ::
  "library \<Rightarrow> Sentinel1Image \<Rightarrow> string \<Rightarrow> bool \<Rightarrow> error + raster" where
  "modifiedNoiseEquivalentSigma0Map lib img polarization localNoisePowerCompensation =
     and_then (rawNoiseEquivalentSigma0Map lib img polarization True) (\<lambda>raw.
     and_then (if 25 / 10 \<le> IPFversion img \<and> IPFversion img < 29 / 10
               then and_then (scallopingGainMap img polarization) (\<lambda>gain.
                      Inr (raster_map2 fl_mul raw gain))
               else Inr raw) (\<lambda>scalloped.
     and_then (subswathIndexMap img polarization) (\<lambda>swi.
     and_then (import_denoisingCoefficients lib img polarization) (\<lambda>c.
     and_then
       (fold_err
          (\<lambda>iSW n.
             and_then (lookup (noiseScaling c) (subswathID (obsMode img) iSW)) (\<lambda>k.
             and_then (lookup (powerBalancing c) (subswathID (obsMode img) iSW)) (\<lambda>b.
               Inr (assign_where (\<lambda>y x. swi y x = iSW)
                      (\<lambda>y x. fl_add (fl_mul (n y x) k) b) n))))
          (subswaths (obsMode img)) scalloped) (\<lambda>balanced.
       if localNoisePowerCompensation \<and> (polarization = ''HV'' \<or> polarization = ''VH'') then
         and_then (rawSigma0Map lib img polarization) (\<lambda>sigma0.
           adaptiveNoiseScaling lib (shape img) (obsMode img) sigma0 balanced swi
             (extraScaling c) 5)
       else Inr balanced)))))"

subsection \<open>Thermal noise removal\<close>

text \<open>
  \<^verbatim>\<open>sigma0 = rawSigma0 - noiseEquivalentSigma0
if preserveTotalPower:
    sigma0 += np.nanmean(noiseEquivalentSigma0)\<close>
\<close>

definition noise_subtraction :: "nat \<times> nat \<Rightarrow> raster \<Rightarrow> raster \<Rightarrow> bool \<Rightarrow> raster" where
  "noise_subtraction sh rawSigma0 noiseEquivalentSigma0 preserveTotalPower =
     (let sigma0 = raster_map2 fl_sub rawSigma0 noiseEquivalentSigma0
      in if preserveTotalPower
         then (\<lambda>y x. fl_add (sigma0 y x) (nanmean (pixels sh noiseEquivalentSigma0)))
         else sigma0)"

text \<open>
  \<^verbatim>\<open>if algorithm=='ESA':
    sigma0[sigma0 < 0] = 0
elif algorithm=='NERSC':
    sigma0[rawSigma0==0] = np.nan
    sigma0[rawSigma0 < 1e-4] = np.nan\<close>
\<close>

definition post_filter :: "pyval \<Rightarrow> raster \<Rightarrow> raster \<Rightarrow> raster" where
  "post_filter algorithm rawSigma0 sigma0 =
     (if algorithm = PyStr ''ESA'' then
        fill_where (\<lambda>y x. fl_lt (sigma0 y x) (Fin 0)) (Fin 0) sigma0
      else if algorithm = PyStr ''NERSC'' then
        fill_where (\<lambda>y x. fl_lt (rawSigma0 y x) (Fin (1 / 10000))) NaN
          (fill_where (\<lambda>y x. fl_eq (rawSigma0 y x) (Fin 0)) NaN sigma0)
      else sigma0)"

text \<open>
  What \<open>thermalNoiseRemoval\<close> returns: the denoised sigma nought, and before it the
  noise-equivalent sigma nought when \<open>returnNESZ\<close> is set.
\<close>

datatype denoised = Sigma0 raster | NESZ_Sigma0 raster raster

fun denoised_sigma0 :: "denoised \<Rightarrow> raster" where
  "denoised_sigma0 (Sigma0 s) = s"
| "denoised_sigma0 (NESZ_Sigma0 n s) = s"

definition thermalNoiseRemoval ::
  "library \<Rightarrow> Sentinel1Image \<Rightarrow> string \<Rightarrow> pyval \<Rightarrow> bool \<Rightarrow> pyval \<Rightarrow> bool \<Rightarrow> error + denoised" where
  "thermalNoiseRemoval lib img polarization algorithm localNoisePowerCompensation
       preserveTotalPower returnNESZ =
     (if algorithm \<noteq> PyStr ''ESA'' \<and> algorithm \<noteq> PyStr ''NERSC'' then
        Inl (ValueError ''algorithm must be ESA or NERSC'')
      else
        (case preserveTotalPower of
           PyBool preserve \<Rightarrow>
             and_then (subswathIndexMap img polarization) (\<lambda>swi.
             and_then (rawSigma0Map lib img polarization) (\<lambda>rawSigma0.
             and_then
               (if algorithm = PyStr ''ESA''
                then rawNoiseEquivalentSigma0Map lib img polarization False
                else modifiedNoiseEquivalentSigma0Map lib img polarization
                       localNoisePowerCompensation) (\<lambda>noiseEquivalentSigma0.
               (let sigma0 = post_filter algorithm rawSigma0
                               (noise_subtraction (shape img) rawSigma0 noiseEquivalentSigma0
                                  preserve)
                in if returnNESZ then Inr (NESZ_Sigma0 noiseEquivalentSigma0 sigma0)
                   else Inr (Sigma0 sigma0)))))
         | _ \<Rightarrow> Inl (ValueError ''preserveTotalPower must be True or False'')))"



section \<open>Properties of thermal noise removal\<close>

lemma and_then_Inr_iff: "and_then r f = Inr v \<longleftrightarrow> (\<exists>u. r = Inr u \<and> f u = Inr v)"
  by (cases r) (simp_all add: and_then_def)

lemma and_then_Inl_iff:
  "and_then r f = Inl e \<longleftrightarrow> r = Inl e \<or> (\<exists>u. r = Inr u \<and> f u = Inl e)"
  by (cases r) (simp_all add: and_then_def)

lemma thermalNoiseRemoval_Inr:
  assumes "thermalNoiseRemoval lib img polarization algorithm lnpc ptp rn = Inr out"
  shows "\<exists>preserve swi raw nesz.
     (algorithm = PyStr ''ESA'' \<or> algorithm = PyStr ''NERSC'') \<and>
     ptp = PyBool preserve \<and>
     subswathIndexMap img polarization = Inr swi \<and>
     rawSigma0Map lib img polarization = Inr raw \<and>
     (if algorithm = PyStr ''ESA'' then rawNoiseEquivalentSigma0Map lib img polarization False
      else modifiedNoiseEquivalentSigma0Map lib img polarization lnpc) = Inr nesz \<and>
     out = (if rn
            then NESZ_Sigma0 nesz (post_filter algorithm raw
                   (noise_subtraction (shape img) raw nesz preserve))
            else Sigma0 (post_filter algorithm raw
                   (noise_subtraction (shape img) raw nesz preserve)))"
proof -
  from assms have alg: "algorithm = PyStr ''ESA'' \<or> algorithm = PyStr ''NERSC''"
    by (auto simp: thermalNoiseRemoval_def split: if_splits)
  from assms alg obtain preserve where p: "ptp = PyBool preserve"
    by (cases ptp) (auto simp: thermalNoiseRemoval_def split: if_splits)
  from assms alg p show ?thesis
    unfolding thermalNoiseRemoval_def
    by (auto simp: and_then_Inr_iff Let_def split: if_splits)
qed

text \<open>
  Claim C1. Whenever \<open>thermalNoiseRemoval\<close> returns, for any product, polarization
  and flags, every pixel of the denoised raster is the noise-subtracted value after
  the post-filter of the algorithm. With \<open>'ESA'\<close> the noise is the raw noise-equivalent
  sigma nought and a negative noise-subtracted value becomes zero (any other value,
  NaN included, is kept). With \<open>'NERSC'\<close> the noise is the modified noise-equivalent
  sigma nought, nothing is clipped, a pixel whose raw sigma nought is zero or below
  \<open>1e-4\<close> becomes NaN, and every other pixel keeps its noise-subtracted value,
  negative or not.
\<close>

theorem thermalNoiseRemoval_post_filter:
  assumes "thermalNoiseRemoval lib img polarization algorithm lnpc ptp rn = Inr out"
  shows "\<exists>preserve raw nesz.
     ptp = PyBool preserve \<and>
     rawSigma0Map lib img polarization = Inr raw \<and>
     (algorithm = PyStr ''ESA'' \<longrightarrow>
        rawNoiseEquivalentSigma0Map lib img polarization False = Inr nesz \<and>
        (\<forall>y x. denoised_sigma0 out y x =
           (if fl_lt (noise_subtraction (shape img) raw nesz preserve y x) (Fin 0) then Fin 0
            else noise_subtraction (shape img) raw nesz preserve y x))) \<and>
     (algorithm = PyStr ''NERSC'' \<longrightarrow>
        modifiedNoiseEquivalentSigma0Map lib img polarization lnpc = Inr nesz \<and>
        (\<forall>y x. denoised_sigma0 out y x =
           (if fl_eq (raw y x) (Fin 0) \<or> fl_lt (raw y x) (Fin (1 / 10000)) then NaN
            else noise_subtraction (shape img) raw nesz preserve y x)))"
proof -
  from thermalNoiseRemoval_Inr[OF assms]
  obtain preserve swi raw nesz where
    alg: "algorithm = PyStr ''ESA'' \<or> algorithm = PyStr ''NERSC''" and
    p: "ptp = PyBool preserve" and
    raw: "rawSigma0Map lib img polarization = Inr raw" and
    nesz: "(if algorithm = PyStr ''ESA'' then rawNoiseEquivalentSigma0Map lib img polarization False
      else modifiedNoiseEquivalentSigma0Map lib img polarization lnpc) = Inr nesz" and
    out: "out = (if rn
            then NESZ_Sigma0 nesz (post_filter algorithm raw
                   (noise_subtraction (shape img) raw nesz preserve))
            else Sigma0 (post_filter algorithm raw
                   (noise_subtraction (shape img) raw nesz preserve)))"
    by blast
  have s: "denoised_sigma0 out
      = post_filter algorithm raw (noise_subtraction (shape img) raw nesz preserve)"
    using out by simp
  show ?thesis
    apply (rule exI[of _ preserve], rule exI[of _ raw], rule exI[of _ nesz])
    using p raw nesz by (auto simp: s post_filter_def fill_where_def)
qed

subsection \<open>The mean of the subtracted power\<close>

fun fin_val :: "fl \<Rightarrow> real" where
  "fin_val (Fin a) = a"
| "fin_val x = 0"

lemma isfinite_iff: "isfinite v \<longleftrightarrow> (\<exists>a. v = Fin a)"
  by (cases v) auto

lemma np_sum_finite:
  "\<forall>v \<in> set xs. isfinite v \<Longrightarrow> np_sum xs = Fin (sum_list (map fin_val xs))"
proof (induction xs)
  case Nil
  then show ?case by (simp add: np_sum_def)
next
  case (Cons v xs)
  then obtain a where "v = Fin a" by (auto simp: isfinite_iff)
  with Cons show ?case by (simp add: np_sum_def)
qed

lemma filter_not_NaN: "\<forall>v \<in> set xs. isfinite v \<Longrightarrow> filter (\<lambda>v. v \<noteq> NaN) xs = xs"
  by (induction xs) (auto simp: isfinite_iff)

lemma nanmean_finite:
  assumes "xs \<noteq> []" "\<forall>v \<in> set xs. isfinite v"
  shows "nanmean xs = Fin (sum_list (map fin_val xs) / real (length xs))"
  using assms by (simp add: nanmean_def filter_not_NaN np_sum_finite)

lemma np_mean_finite:
  assumes "xs \<noteq> []" "\<forall>v \<in> set xs. isfinite v"
  shows "np_mean xs = Fin (sum_list (map fin_val xs) / real (length xs))"
  using assms by (simp add: np_mean_def np_sum_finite)

lemma length_pixels: "length (pixels sh a) = fst sh * snd sh"
  by (simp add: pixels_def length_concat comp_def sum_list_triv)

lemma set_pixels: "set (pixels sh a) = {a y x | y x. y < fst sh \<and> x < snd sh}"
  by (fastforce simp: pixels_def)

lemma pixels_cong:
  assumes "\<And>y x. y < fst sh \<Longrightarrow> x < snd sh \<Longrightarrow> a y x = b y x"
  shows "pixels sh a = pixels sh b"
  using assms by (auto simp: pixels_def intro!: arg_cong[where f=concat])

lemma pixels_map: "pixels sh (\<lambda>y x. g (a y x)) = map g (pixels sh a)"
  by (simp add: pixels_def map_concat comp_def)

lemma sum_list_shift:
  "sum_list (map (\<lambda>v. fin_val v - m) xs) = sum_list (map fin_val xs) - real (length xs) * m"
  by (induction xs) (simp_all add: algebra_simps)

lemma mean_of_difference:
  assumes ne: "0 < fst sh" "0 < snd sh"
    and fin: "\<forall>y < fst sh. \<forall>x < snd sh. isfinite (raw y x) \<and> isfinite (nesz y x)"
  shows "np_mean (pixels sh (raster_map2 fl_sub raw (noise_subtraction sh raw nesz True)))
       = fl_sub (np_mean (pixels sh nesz)) (nanmean (pixels sh nesz))"
proof -
  let ?ns = "pixels sh nesz"
  have ns_ne: "?ns \<noteq> []"
    using ne length_pixels[of sh nesz] by (metis length_0_conv mult_is_0 less_numeral_extra(3))
  have ns_fin: "\<forall>v \<in> set ?ns. isfinite v"
    using fin by (auto simp: set_pixels)
  define m where "m = sum_list (map fin_val ?ns) / real (length ?ns)"
  have nm: "nanmean ?ns = Fin m"
    using nanmean_finite[OF ns_ne ns_fin] by (simp add: m_def)
  have mn: "np_mean ?ns = Fin m"
    using np_mean_finite[OF ns_ne ns_fin] by (simp add: m_def)
  have "pixels sh (raster_map2 fl_sub raw (noise_subtraction sh raw nesz True))
      = pixels sh (\<lambda>y x. Fin (fin_val (nesz y x) - m))"
  proof (rule pixels_cong)
    fix y x assume "y < fst sh" "x < snd sh"
    with fin have "isfinite (raw y x)" "isfinite (nesz y x)" by auto
    then obtain r n where "raw y x = Fin r" "nesz y x = Fin n"
      by (auto simp: isfinite_iff)
    then show "raster_map2 fl_sub raw (noise_subtraction sh raw nesz True) y x
        = Fin (fin_val (nesz y x) - m)"
      by (simp add: raster_map2_def noise_subtraction_def fl_sub_def nm)
  qed
  also have "\<dots> = map (\<lambda>v. Fin (fin_val v - m)) ?ns"
    by (rule pixels_map)
  finally have px: "pixels sh (raster_map2 fl_sub raw (noise_subtraction sh raw nesz True))
      = map (\<lambda>v. Fin (fin_val v - m)) ?ns" .
  have "np_mean (map (\<lambda>v. Fin (fin_val v - m)) ?ns)
      = Fin (sum_list (map (\<lambda>v. fin_val v - m) ?ns) / real (length ?ns))"
    using ns_ne by (subst np_mean_finite) (simp_all add: comp_def)
  also have "\<dots> = Fin (m - m)"
  proof -
    have "real (length ?ns) * m = sum_list (map fin_val ?ns)"
      using ns_ne by (simp add: m_def)
    then have "sum_list (map (\<lambda>v. fin_val v - m) ?ns) = 0"
      by (simp add: sum_list_shift)
    then show ?thesis by simp
  qed
  finally show ?thesis
    by (simp add: px nm mn fl_sub_def)
qed

text \<open>
  Claim C2, as the code has it. With \<open>preserveTotalPower=True\<close> the noise-subtracted
  raster, before the post-filter, is the raw sigma nought minus the noise-equivalent
  sigma nought plus the NaN-ignoring global mean of the latter. When every pixel of
  both rasters is finite, the spatial mean of the raw minus this raster is the mean
  of the noise minus the added mean term. The raster that \<open>thermalNoiseRemoval\<close>
  returns has that value at every pixel that the post-filter leaves alone: for
  \<open>'ESA'\<close> where the value is not negative, for \<open>'NERSC'\<close> where the raw sigma nought
  is neither zero nor below \<open>1e-4\<close>.
\<close>

theorem preserveTotalPower_adds_mean:
  "noise_subtraction sh raw nesz True y x
     = fl_add (fl_sub (raw y x) (nesz y x)) (nanmean (pixels sh nesz)) \<and>
   (0 < fst sh \<and> 0 < snd sh \<and>
    (\<forall>y < fst sh. \<forall>x < snd sh. isfinite (raw y x) \<and> isfinite (nesz y x)) \<longrightarrow>
      np_mean (pixels sh (raster_map2 fl_sub raw (noise_subtraction sh raw nesz True)))
        = fl_sub (np_mean (pixels sh nesz)) (nanmean (pixels sh nesz))) \<and>
   (thermalNoiseRemoval lib img polarization algorithm lnpc (PyBool True) rn = Inr out \<longrightarrow>
      (\<exists>raw' nesz'.
         rawSigma0Map lib img polarization = Inr raw' \<and>
         (if algorithm = PyStr ''ESA''
          then rawNoiseEquivalentSigma0Map lib img polarization False
          else modifiedNoiseEquivalentSigma0Map lib img polarization lnpc) = Inr nesz' \<and>
         (\<forall>y x.
            (algorithm = PyStr ''ESA'' \<and>
               \<not> fl_lt (noise_subtraction (shape img) raw' nesz' True y x) (Fin 0)
             \<or> algorithm = PyStr ''NERSC'' \<and>
               \<not> fl_eq (raw' y x) (Fin 0) \<and> \<not> fl_lt (raw' y x) (Fin (1 / 10000))) \<longrightarrow>
            denoised_sigma0 out y x
              = fl_add (fl_sub (raw' y x) (nesz' y x)) (nanmean (pixels (shape img) nesz')))))"
proof (intro conjI impI)
  show "noise_subtraction sh raw nesz True y x
     = fl_add (fl_sub (raw y x) (nesz y x)) (nanmean (pixels sh nesz))"
    by (simp add: noise_subtraction_def raster_map2_def)
next
  assume "0 < fst sh \<and> 0 < snd sh \<and>
    (\<forall>y < fst sh. \<forall>x < snd sh. isfinite (raw y x) \<and> isfinite (nesz y x))"
  then show "np_mean (pixels sh (raster_map2 fl_sub raw (noise_subtraction sh raw nesz True)))
        = fl_sub (np_mean (pixels sh nesz)) (nanmean (pixels sh nesz))"
    using mean_of_difference[of sh raw nesz] by blast
next
  assume a: "thermalNoiseRemoval lib img polarization algorithm lnpc (PyBool True) rn = Inr out"
  from thermalNoiseRemoval_Inr[OF a]
  obtain raw' nesz' where
    raw: "rawSigma0Map lib img polarization = Inr raw'" and
    nesz: "(if algorithm = PyStr ''ESA'' then rawNoiseEquivalentSigma0Map lib img polarization False
      else modifiedNoiseEquivalentSigma0Map lib img polarization lnpc) = Inr nesz'" and
    out: "out = (if rn
            then NESZ_Sigma0 nesz' (post_filter algorithm raw'
                   (noise_subtraction (shape img) raw' nesz' True))
            else Sigma0 (post_filter algorithm raw'
                   (noise_subtraction (shape img) raw' nesz' True)))"
    by auto
  have s: "denoised_sigma0 out
      = post_filter algorithm raw' (noise_subtraction (shape img) raw' nesz' True)"
    using out by simp
  have "\<forall>y x.
      (algorithm = PyStr ''ESA'' \<and>
         \<not> fl_lt (noise_subtraction (shape img) raw' nesz' True y x) (Fin 0)
       \<or> algorithm = PyStr ''NERSC'' \<and>
         \<not> fl_eq (raw' y x) (Fin 0) \<and> \<not> fl_lt (raw' y x) (Fin (1 / 10000))) \<longrightarrow>
      denoised_sigma0 out y x
        = fl_add (fl_sub (raw' y x) (nesz' y x)) (nanmean (pixels (shape img) nesz'))"
    by (auto simp: s post_filter_def fill_where_def noise_subtraction_def raster_map2_def)
  with raw nesz show "\<exists>raw' nesz'.
         rawSigma0Map lib img polarization = Inr raw' \<and>
         (if algorithm = PyStr ''ESA''
          then rawNoiseEquivalentSigma0Map lib img polarization False
          else modifiedNoiseEquivalentSigma0Map lib img polarization lnpc) = Inr nesz' \<and>
         (\<forall>y x.
            (algorithm = PyStr ''ESA'' \<and>
               \<not> fl_lt (noise_subtraction (shape img) raw' nesz' True y x) (Fin 0)
             \<or> algorithm = PyStr ''NERSC'' \<and>
               \<not> fl_eq (raw' y x) (Fin 0) \<and> \<not> fl_lt (raw' y x) (Fin (1 / 10000))) \<longrightarrow>
            denoised_sigma0 out y x
              = fl_add (fl_sub (raw' y x) (nesz' y x)) (nanmean (pixels (shape img) nesz')))"
    by blast
qed

subsection \<open>Monotonicity in the noise\<close>

lemma fl_sub_antimono:
  assumes "fl_le n1 n2"
  shows "\<not> fl_lt (fl_sub r n1) (fl_sub r n2)" and "isfinite r \<Longrightarrow> fl_le (fl_sub r n2) (fl_sub r n1)"
  using assms by (cases r; cases n1; cases n2; simp add: fl_sub_def)+

text \<open>
  Claim C4, as the code has it. Without \<open>preserveTotalPower\<close>, and before the
  post-filter, a larger noise-equivalent value at a pixel never gives a larger
  noise-subtracted value at that pixel, and gives a smaller or equal one where the
  raw sigma nought is finite.
\<close>

theorem noise_subtraction_antimono:
  "fl_le (n1 y x) (n2 y x) \<longrightarrow>
     \<not> fl_lt (noise_subtraction sh raw n1 False y x) (noise_subtraction sh raw n2 False y x) \<and>
     (isfinite (raw y x) \<longrightarrow>
        fl_le (noise_subtraction sh raw n2 False y x) (noise_subtraction sh raw n1 False y x))"
  using fl_sub_antimono[of "n1 y x" "n2 y x" "raw y x"]
  by (simp add: noise_subtraction_def raster_map2_def)

theorem noise_subtraction_antimono_witness:
  "fl_le (Fin 1) (Fin 2) \<and> isfinite (Fin 5) \<and>
   fl_le (noise_subtraction (1, 1) (\<lambda>y x. Fin 5) (\<lambda>y x. Fin 2) False 0 0)
         (noise_subtraction (1, 1) (\<lambda>y x. Fin 5) (\<lambda>y x. Fin 1) False 0 0)"
  using noise_subtraction_antimono
    [of "\<lambda>y x. Fin 1" 0 0 "\<lambda>y x. Fin 2" "(1, 1)" "\<lambda>y x. Fin 5"]
  by simp

text \<open>
  With \<open>preserveTotalPower\<close> the property of claim C4 fails: raising the noise at one
  pixel raises the mean that is added back at every other pixel.
\<close>

theorem noise_subtraction_preserving_not_antimono:
  "(\<forall>y x. fl_le ((\<lambda>y x. Fin 0) y x) ((\<lambda>y x. if x = 1 then Fin 2 else Fin 0) y x)) \<and>
   noise_subtraction (1, 2) (\<lambda>y x. Fin 0) (\<lambda>y x. Fin 0) True 0 0 = Fin 0 \<and>
   noise_subtraction (1, 2) (\<lambda>y x. Fin 0) (\<lambda>y x. if x = 1 then Fin 2 else Fin 0) True 0 0 = Fin 1 \<and>
   \<not> fl_le (noise_subtraction (1, 2) (\<lambda>y x. Fin 0) (\<lambda>y x. if x = 1 then Fin 2 else Fin 0) True 0 0)
           (noise_subtraction (1, 2) (\<lambda>y x. Fin 0) (\<lambda>y x. Fin 0) True 0 0)"
  by (simp add: noise_subtraction_def raster_map2_def fl_sub_def nanmean_def np_sum_def
      pixels_def eval_nat_numeral)

subsection \<open>Validation of the arguments\<close>

text \<open>
  Claim C10. An \<open>algorithm\<close> other than \<open>'ESA'\<close> and \<open>'NERSC'\<close>, or a
  \<open>preserveTotalPower\<close> that is not a \<open>bool\<close>, makes \<open>thermalNoiseRemoval\<close> raise
  \<open>ValueError\<close> whatever the product, the library and the other arguments are: no
  table, band or raster has a part in the result, also when every read of the product
  would raise. With valid arguments the method raises only an exception of one of
  its three steps (the subswath index map, the raw sigma nought, the
  noise-equivalent sigma nought), and returns when the three of them return.
\<close>

theorem thermalNoiseRemoval_validation:
  "(algorithm \<noteq> PyStr ''ESA'' \<and> algorithm \<noteq> PyStr ''NERSC'' \<longrightarrow>
      thermalNoiseRemoval lib img polarization algorithm lnpc ptp rn
        = Inl (ValueError ''algorithm must be ESA or NERSC'') \<and>
      thermalNoiseRemoval lib' img' polarization' algorithm lnpc' ptp rn'
        = thermalNoiseRemoval lib img polarization algorithm lnpc ptp rn) \<and>
   ((algorithm = PyStr ''ESA'' \<or> algorithm = PyStr ''NERSC'') \<and> (\<forall>b. ptp \<noteq> PyBool b) \<longrightarrow>
      thermalNoiseRemoval lib img polarization algorithm lnpc ptp rn
        = Inl (ValueError ''preserveTotalPower must be True or False'') \<and>
      thermalNoiseRemoval lib' img' polarization' algorithm lnpc' ptp rn'
        = thermalNoiseRemoval lib img polarization algorithm lnpc ptp rn) \<and>
   ((algorithm = PyStr ''ESA'' \<or> algorithm = PyStr ''NERSC'') \<and> ptp = PyBool b \<longrightarrow>
      (\<forall>e. thermalNoiseRemoval lib img polarization algorithm lnpc ptp rn = Inl e \<longrightarrow>
         subswathIndexMap img polarization = Inl e \<or>
         rawSigma0Map lib img polarization = Inl e \<or>
         (if algorithm = PyStr ''ESA''
          then rawNoiseEquivalentSigma0Map lib img polarization False
          else modifiedNoiseEquivalentSigma0Map lib img polarization lnpc) = Inl e) \<and>
      (\<forall>swi raw nesz.
         subswathIndexMap img polarization = Inr swi \<and>
         rawSigma0Map lib img polarization = Inr raw \<and>
         (if algorithm = PyStr ''ESA''
          then rawNoiseEquivalentSigma0Map lib img polarization False
          else modifiedNoiseEquivalentSigma0Map lib img polarization lnpc) = Inr nesz \<longrightarrow>
         (\<exists>out. thermalNoiseRemoval lib img polarization algorithm lnpc ptp rn = Inr out)))"
proof (intro conjI impI allI)
  assume a: "algorithm \<noteq> PyStr ''ESA'' \<and> algorithm \<noteq> PyStr ''NERSC''"
  then show "thermalNoiseRemoval lib img polarization algorithm lnpc ptp rn
        = Inl (ValueError ''algorithm must be ESA or NERSC'')"
    by (simp add: thermalNoiseRemoval_def)
  from a show "thermalNoiseRemoval lib' img' polarization' algorithm lnpc' ptp rn'
        = thermalNoiseRemoval lib img polarization algorithm lnpc ptp rn"
    by (simp add: thermalNoiseRemoval_def)
next
  assume a: "(algorithm = PyStr ''ESA'' \<or> algorithm = PyStr ''NERSC'') \<and> (\<forall>b. ptp \<noteq> PyBool b)"
  then show "thermalNoiseRemoval lib img polarization algorithm lnpc ptp rn
        = Inl (ValueError ''preserveTotalPower must be True or False'')"
    by (cases ptp) (auto simp: thermalNoiseRemoval_def)
  from a show "thermalNoiseRemoval lib' img' polarization' algorithm lnpc' ptp rn'
        = thermalNoiseRemoval lib img polarization algorithm lnpc ptp rn"
    by (cases ptp) (auto simp: thermalNoiseRemoval_def)
next
  fix e
  assume a: "(algorithm = PyStr ''ESA'' \<or> algorithm = PyStr ''NERSC'') \<and> ptp = PyBool b"
    and f: "thermalNoiseRemoval lib img polarization algorithm lnpc ptp rn = Inl e"
  from a f show "subswathIndexMap img polarization = Inl e \<or>
         rawSigma0Map lib img polarization = Inl e \<or>
         (if algorithm = PyStr ''ESA''
          then rawNoiseEquivalentSigma0Map lib img polarization False
          else modifiedNoiseEquivalentSigma0Map lib img polarization lnpc) = Inl e"
    unfolding thermalNoiseRemoval_def
    by (auto simp: and_then_Inl_iff Let_def split: if_splits)
next
  fix swi raw nesz
  assume a: "(algorithm = PyStr ''ESA'' \<or> algorithm = PyStr ''NERSC'') \<and> ptp = PyBool b"
    and f: "subswathIndexMap img polarization = Inr swi \<and>
         rawSigma0Map lib img polarization = Inr raw \<and>
         (if algorithm = PyStr ''ESA''
          then rawNoiseEquivalentSigma0Map lib img polarization False
          else modifiedNoiseEquivalentSigma0Map lib img polarization lnpc) = Inr nesz"
  from a f show "\<exists>out. thermalNoiseRemoval lib img polarization algorithm lnpc ptp rn = Inr out"
    unfolding thermalNoiseRemoval_def
    by (auto simp: and_then_def Let_def split: if_splits)
qed



section \<open>A sample product\<close>

text \<open>
  A library whose interpolators are constant: the first ordinate for a spline through
  more points than its degree, the first value for a bilinear spline over at least two
  pixels and two lines. On constant samples, as those of the product below, SciPy's
  interpolating splines are that constant too.
\<close>

definition sample_lib :: library where
  "sample_lib =
     \<lparr> InterpolatedUnivariateSpline =
         (\<lambda>x y k. if length x \<le> k \<or> length x \<noteq> length y
                  then Inl (LibraryError ''(m>k) failed for hidden m'')
                  else Inr (\<lambda>v. hd y)),
       RectBivariateSpline =
         (\<lambda>x y z. if length x < 2 \<or> length y < 2
                  then Inl (LibraryError ''(my>ky) failed for hidden my'')
                  else Inr (\<lambda>u v. hd (hd z))),
       corrcoef = (\<lambda>a b. NaN),
       convolve = (\<lambda>sh a w. a),
       convolve_index = (\<lambda>sh a w. a),
       format_1f = (\<lambda>v. if v = 28 / 10 then ''2.8'' else ''2.9'') \<rparr>"

text \<open>
  A product of 3 lines and 12 pixels in mode IW: subswath 1 covers the pixels 0 to 3,
  in two rectangles (lines 0 to 1, and line 2), subswath 2 the pixels 4 to 7 and
  subswath 3 the pixels 8 to 11.
\<close>

definition sample_bounds :: "nat \<Rightarrow> swathBound list" where
  "sample_bounds iSW =
     (if iSW = 1 then
        [\<lparr> firstAzimuthLine = 0, firstRangeSample = 0, lastAzimuthLine = 1, lastRangeSample = 3 \<rparr>,
         \<lparr> firstAzimuthLine = 2, firstRangeSample = 0, lastAzimuthLine = 2, lastRangeSample = 3 \<rparr>]
      else if iSW = 2 then
        [\<lparr> firstAzimuthLine = 0, firstRangeSample = 4, lastAzimuthLine = 2, lastRangeSample = 7 \<rparr>]
      else
        [\<lparr> firstAzimuthLine = 0, firstRangeSample = 8, lastAzimuthLine = 2, lastRangeSample = 11 \<rparr>])"

definition sample_swathBounds :: "string \<Rightarrow> swathBound list" where
  "sample_swathBounds sid =
     (if sid = ''IW1'' then sample_bounds 1 else if sid = ''IW2'' then sample_bounds 2
      else if sid = ''IW3'' then sample_bounds 3 else [])"

definition sample_swi :: indexmap where
  "sample_swi = (\<lambda>y x. if 2 < y then 0 else if x < 4 then 1 else if x < 8 then 2
                        else if x < 12 then 3 else 0)"

text \<open>
  A vector with one sample at each pixel: the value \<open>a\<close> in subswath 1 and \<open>b\<close> in
  the subswaths 2 and 3.
\<close>

definition sample_vector :: "int \<Rightarrow> real \<Rightarrow> real \<Rightarrow> sparseVector" where
  "sample_vector l a b =
     \<lparr> line = l,
       samples = [(0, Fin a), (1, Fin a), (2, Fin a), (3, Fin a),
                  (4, Fin b), (5, Fin b), (6, Fin b), (7, Fin b),
                  (8, Fin b), (9, Fin b), (10, Fin b), (11, Fin b)] \<rparr>"

text \<open>
  Calibration vectors on the lines 0, 1 and 2, all of value 2, but for the vector of
  line 2, which is 0 over subswath 1: the rectangle of subswath 1 on line 2 has no
  usable sample. Noise vectors of value 8 in subswath 1 and 16 in the others.
\<close>

definition sample_calibrationVector :: "sparseVector list" where
  "sample_calibrationVector = [sample_vector 0 2 2, sample_vector 1 2 2, sample_vector 2 0 2]"

definition sample_noiseRangeVector :: "sparseVector list" where
  "sample_noiseRangeVector = [sample_vector 0 8 16, sample_vector 1 8 16, sample_vector 2 8 16]"

definition sample_block :: noiseAzimuthBlock where
  "sample_block =
     \<lparr> firstAzimuthLine = 0, firstRangeSample = 0, lastAzimuthLine = 2, lastRangeSample = 11,
       noiseAzimuthLut = VectorLut [(Fin 0, Fin 1), (Fin 2, Fin 1)] \<rparr>"

definition sample_DN :: indexmap where
  "sample_DN = (\<lambda>y x. if y = 0 \<and> x = 4 then 0 else 3)"

definition sample_img :: Sentinel1Image where
  "sample_img =
     \<lparr> obsMode = IW, shape = (3, 12), IPFversion = 29 / 10, satID = ''S1A'',
       sensingDate = 20200101000000,
       DN = (\<lambda>p. Inr sample_DN),
       import_swathBounds = (\<lambda>p. Inr sample_swathBounds),
       import_calibrationVector = (\<lambda>p. Inr sample_calibrationVector),
       import_noiseVector = (\<lambda>p. Inr (sample_noiseRangeVector, \<lambda>sid. [sample_block])),
       annotatedElevationAngleIntp = (\<lambda>p. Inr (\<lambda>y x. x)),
       elevationAntennaPatternInterpolator = (\<lambda>p. Inr (\<lambda>y x. Fin 1)),
       rangeSpreadingLossInterpolator = (\<lambda>p. Inr (\<lambda>y x. Fin 1)),
       scallopingGainMap = (\<lambda>p. Inr (\<lambda>y x. Fin 1)),
       load_denoParams = (\<lambda>p. Inr \<lparr> noiseScalingParameters = None,
                                     powerBalancingParameters = None,
                                     extraScalingParameters = None,
                                     noiseVarianceParameters = None \<rparr>) \<rparr>"

lemma sample_lib_fields:
  "InterpolatedUnivariateSpline sample_lib x y k =
     (if length x \<le> k \<or> length x \<noteq> length y
      then Inl (LibraryError ''(m>k) failed for hidden m'') else Inr (\<lambda>v. hd y))"
  "RectBivariateSpline sample_lib x y z =
     (if length x < 2 \<or> length y < 2
      then Inl (LibraryError ''(my>ky) failed for hidden my'') else Inr (\<lambda>u v. hd (hd z)))"
  "corrcoef sample_lib a b = NaN"
  "convolve sample_lib sh r w = r"
  "convolve_index sample_lib sh m w = m"
  by (simp_all add: sample_lib_def)

lemma sample_img_fields:
  "obsMode sample_img = IW"
  "shape sample_img = (3, 12)"
  "IPFversion sample_img = 29 / 10"
  "DN sample_img p = Inr sample_DN"
  "import_swathBounds sample_img p = Inr sample_swathBounds"
  "import_calibrationVector sample_img p = Inr sample_calibrationVector"
  "import_noiseVector sample_img p = Inr (sample_noiseRangeVector, \<lambda>sid. [sample_block])"
  by (simp_all add: sample_img_def)

lemma subswaths_IW: "subswaths IW = [Suc 0, 2, 3]"
  by (simp add: subswaths_def numberOfSubswaths_def upt_rec)

lemma subswathID_IW:
  "subswathID IW (Suc 0) = ''IW1''" "subswathID IW 2 = ''IW2''" "subswathID IW 3 = ''IW3''"
  by (simp_all add: subswathID_def)

lemma sample_swathBounds_IW:
  "sample_swathBounds ''IW1'' = sample_bounds (Suc 0)"
  "sample_swathBounds ''IW2'' = sample_bounds 2"
  "sample_swathBounds ''IW3'' = sample_bounds 3"
  by (simp_all add: sample_swathBounds_def)

lemma sample_subswathIndexMap: "subswathIndexMap sample_img p = Inr sample_swi"
  by (auto simp: subswathIndexMap_def sample_img_fields and_then_def subswaths_IW subswathID_IW
      sample_swathBounds_IW sample_bounds_def assign_rect_def sample_swi_def fun_eq_iff)

lemma xBins_IW:
  "[0..<3] = [0, Suc 0, 2]" "[4..<7] = [4, 5, 6]" "[8..<11] = [8, 9, 10]"
  by (simp_all add: upt_rec)

lemma sample_valid:
  "0 < a \<Longrightarrow> valid_samples (3, 12) sample_swi (Suc 0) g (sample_vector l a b)
     = (if 3 \<le> l then Inl (IndexError ''index is out of bounds'')
        else Inr [(0, Fin a), (Suc 0, Fin a), (2, Fin a), (3, Fin a)])"
  "0 < b \<Longrightarrow> valid_samples (3, 12) sample_swi 2 g (sample_vector l a b)
     = (if 3 \<le> l then Inl (IndexError ''index is out of bounds'')
        else Inr [(4, Fin b), (5, Fin b), (6, Fin b), (7, Fin b)])"
  "0 < b \<Longrightarrow> valid_samples (3, 12) sample_swi 3 g (sample_vector l a b)
     = (if 3 \<le> l then Inl (IndexError ''index is out of bounds'')
        else Inr [(8, Fin b), (9, Fin b), (10, Fin b), (11, Fin b)])"
  by (auto simp: valid_samples_def sample_vector_def sample_swi_def and_then_def fl_eq_def
      np_gradient_def fl_sub_def Let_def upt_rec)

lemma sample_rows:
  "0 < a \<Longrightarrow> l < 3 \<Longrightarrow>
   interp_row sample_lib (3, 12) sample_swi (Suc 0) g [0, Suc 0, 2, 3] (sample_vector l a b)
     = Inr [Fin a, Fin a, Fin a, Fin a]"
  "0 < b \<Longrightarrow> l < 3 \<Longrightarrow>
   interp_row sample_lib (3, 12) sample_swi 2 g [4, 5, 6, 7] (sample_vector l a b)
     = Inr [Fin b, Fin b, Fin b, Fin b]"
  "0 < b \<Longrightarrow> l < 3 \<Longrightarrow>
   interp_row sample_lib (3, 12) sample_swi 3 g [8, 9, 10, 11] (sample_vector l a b)
     = Inr [Fin b, Fin b, Fin b, Fin b]"
  by (simp_all add: interp_row_def sample_valid and_then_def sample_lib_fields)

lemma sample_row_skipped:
  "interp_row sample_lib (3, 12) sample_swi (Suc 0) g [0, Suc 0, 2, 3] (sample_vector 2 0 b)
     = Inr [NaN, NaN, NaN, NaN]"
  by (auto simp: interp_row_def valid_samples_def sample_vector_def sample_swi_def and_then_def
      np_gradient_def nan_row_def Let_def)

lemma sample_line [simp]: "line (sample_vector l a b) = l"
  by (simp add: sample_vector_def)

lemma np_sum_4: "np_sum [Fin a, Fin b, Fin c, Fin d] = Fin (a + (b + (c + d)))"
  by (simp add: np_sum_def)

lemma np_sum_NaN: "np_sum (NaN # xs) = NaN"
  by (simp add: np_sum_def)

lemma sample_calibration_interpolator:
  "swath_interpolator sample_lib (sample_bounds (Suc 0)) sample_calibrationVector
     (interp_row sample_lib (3, 12) sample_swi (Suc 0) False) = Inr (\<lambda>u v. Fin 2)"
  "swath_interpolator sample_lib (sample_bounds 2) sample_calibrationVector
     (interp_row sample_lib (3, 12) sample_swi 2 False) = Inr (\<lambda>u v. Fin 2)"
  "swath_interpolator sample_lib (sample_bounds 3) sample_calibrationVector
     (interp_row sample_lib (3, 12) sample_swi 3 False) = Inr (\<lambda>u v. Fin 2)"
  by (simp_all add: swath_interpolator_def sample_bounds_def py_min_def py_max_def and_then_def
      sample_calibrationVector_def xBins_IW sample_rows sample_row_skipped
      np_sum_4 np_sum_NaN sample_lib_fields)

lemma sample_noise_interpolator:
  "swath_interpolator sample_lib (sample_bounds (Suc 0)) sample_noiseRangeVector
     (interp_row sample_lib (3, 12) sample_swi (Suc 0) True) = Inr (\<lambda>u v. Fin 8)"
  "swath_interpolator sample_lib (sample_bounds 2) sample_noiseRangeVector
     (interp_row sample_lib (3, 12) sample_swi 2 True) = Inr (\<lambda>u v. Fin 16)"
  "swath_interpolator sample_lib (sample_bounds 3) sample_noiseRangeVector
     (interp_row sample_lib (3, 12) sample_swi 3 True) = Inr (\<lambda>u v. Fin 16)"
  by (simp_all add: swath_interpolator_def sample_bounds_def py_min_def py_max_def and_then_def
      sample_noiseRangeVector_def xBins_IW sample_rows
      np_sum_4 sample_lib_fields)

definition sample_cal :: raster where
  "sample_cal = (\<lambda>y x. if sample_swi y x = 0 then NaN else Fin 2)"

definition sample_noise :: raster where
  "sample_noise =
     (\<lambda>y x. if sample_swi y x = 0 then NaN else if sample_swi y x = 1 then Fin 8 else Fin 16)"

lemma sample_calibrationVectorMap: "calibrationVectorMap sample_lib sample_img p = Inr sample_cal"
proof -
  have "calibrationVectorMap sample_lib sample_img p
      = Inr (assign_swath sample_swi 3 (\<lambda>u v. Fin 2)
              (assign_swath sample_swi 2 (\<lambda>u v. Fin 2)
                (assign_swath sample_swi (Suc 0) (\<lambda>u v. Fin 2) nan_raster)))"
    by (simp add: calibrationVectorMap_def sample_subswathIndexMap and_then_def
        sample_img_fields subswaths_IW subswathID_IW sample_swathBounds_IW
        sample_calibration_interpolator)
  also have "assign_swath sample_swi 3 (\<lambda>u v. Fin 2)
              (assign_swath sample_swi 2 (\<lambda>u v. Fin 2)
                (assign_swath sample_swi (Suc 0) (\<lambda>u v. Fin 2) nan_raster)) = sample_cal"
    by (auto simp: assign_swath_def assign_where_def nan_raster_def sample_cal_def sample_swi_def
        fun_eq_iff)
  finally show ?thesis .
qed

lemma fl_mul_one [simp]: "fl_mul v (Fin 1) = v"
  by (cases v) (simp_all add: signed_inf_def)

lemma sample_azimuth_block: "apply_azimuth_block sample_lib (3, 12) sample_block m = Inr m"
  by (auto simp: apply_azimuth_block_def sample_block_def sample_lib_fields and_then_def
      assign_where_def Let_def fun_eq_iff)

lemma sample_noiseVectorMap: "noiseVectorMap sample_lib sample_img p False = Inr sample_noise"
proof -
  have "noiseVectorMap sample_lib sample_img p False
      = Inr (assign_swath sample_swi 3 (\<lambda>u v. Fin 16)
              (assign_swath sample_swi 2 (\<lambda>u v. Fin 16)
                (assign_swath sample_swi (Suc 0) (\<lambda>u v. Fin 8) nan_raster)))"
    by (simp add: noiseVectorMap_def sample_subswathIndexMap and_then_def
        sample_img_fields subswaths_IW subswathID_IW sample_swathBounds_IW
        sample_noise_interpolator sample_azimuth_block)
  also have "assign_swath sample_swi 3 (\<lambda>u v. Fin 16)
              (assign_swath sample_swi 2 (\<lambda>u v. Fin 16)
                (assign_swath sample_swi (Suc 0) (\<lambda>u v. Fin 8) nan_raster)) = sample_noise"
    by (auto simp: assign_swath_def assign_where_def nan_raster_def sample_noise_def
        sample_swi_def fun_eq_iff)
  finally show ?thesis .
qed

definition sample_raw :: raster where
  "sample_raw = (\<lambda>y x. if sample_swi y x = 0 then NaN
                        else if y = 0 \<and> x = 4 then Fin 0 else Fin (9 / 4))"

definition sample_nesz :: raster where
  "sample_nesz =
     (\<lambda>y x. if sample_swi y x = 0 then NaN else if sample_swi y x = 1 then Fin 2 else Fin 4)"

lemma sample_rawSigma0Map: "rawSigma0Map sample_lib sample_img p = Inr sample_raw"
  by (auto simp: rawSigma0Map_def sample_img_fields sample_calibrationVectorMap and_then_def
      sample_DN_def sample_cal_def sample_raw_def fun_eq_iff signed_inf_def)

lemma sample_nesz_quotient:
  "raster_map2 fl_div sample_noise (raster_map2 fl_mul sample_cal sample_cal) = sample_nesz"
  by (auto simp: raster_map2_def sample_noise_def sample_cal_def sample_nesz_def fun_eq_iff)

lemma sample_pixels:
  "pixels (3, 12) sample_nesz =
     [Fin 2, Fin 2, Fin 2, Fin 2, Fin 4, Fin 4, Fin 4, Fin 4, Fin 4, Fin 4, Fin 4, Fin 4,
      Fin 2, Fin 2, Fin 2, Fin 2, Fin 4, Fin 4, Fin 4, Fin 4, Fin 4, Fin 4, Fin 4, Fin 4,
      Fin 2, Fin 2, Fin 2, Fin 2, Fin 4, Fin 4, Fin 4, Fin 4, Fin 4, Fin 4, Fin 4, Fin 4]"
  by (simp add: pixels_def sample_nesz_def sample_swi_def upt_rec)

lemma sample_nanmean: "nanmean (pixels (3, 12) sample_nesz) = Fin (10 / 3)"
  by (simp add: sample_pixels nanmean_def np_sum_def)

lemma not_below_minus_40_dB: "1 \<le> a \<Longrightarrow> \<not> fl_lt (fl_mul (Fin 10) (log10 (Fin a))) (Fin (- 40))"
proof -
  assume a: "1 \<le> a"
  then have "0 \<le> log 10 a" by simp
  then have "\<not> log 10 a < - 4" by linarith
  with a show ?thesis by simp
qed

lemma sample_rawNoiseEquivalentSigma0Map:
  "rawNoiseEquivalentSigma0Map sample_lib sample_img p False = Inr sample_nesz"
  using not_below_minus_40_dB[of "10 / 3"]
  by (simp add: rawNoiseEquivalentSigma0Map_def sample_noiseVectorMap sample_calibrationVectorMap
      and_then_def sample_nesz_quotient sample_img_fields sample_nanmean)

lemma sample_thermalNoiseRemoval:
  "thermalNoiseRemoval sample_lib sample_img p (PyStr ''ESA'') l (PyBool b) False
     = Inr (Sigma0 (post_filter (PyStr ''ESA'') sample_raw
                      (noise_subtraction (3, 12) sample_raw sample_nesz b)))"
  by (simp add: thermalNoiseRemoval_def sample_subswathIndexMap sample_rawSigma0Map
      sample_rawNoiseEquivalentSigma0Map and_then_def sample_img_fields)

lemma sample_subtraction:
  "noise_subtraction (3, 12) sample_raw sample_nesz False 0 0 = Fin (1 / 4)"
  "noise_subtraction (3, 12) sample_raw sample_nesz False 0 4 = Fin (- 4)"
  "noise_subtraction (3, 12) sample_raw sample_nesz True 0 0 = Fin (43 / 12)"
  "noise_subtraction (3, 12) sample_raw sample_nesz True 0 4 = Fin (- 2 / 3)"
  unfolding noise_subtraction_def raster_map2_def sample_nanmean
  by (simp_all add: sample_raw_def sample_nesz_def sample_swi_def fl_sub_def)


subsection \<open>The noise of the reference algorithm\<close>

lemma unrelated_fields:
  fixes img :: Sentinel1Image and lib :: library and a e r g d v s t c cv ci f
  defines "img' \<equiv> img\<lparr> annotatedElevationAngleIntp := a, elevationAntennaPatternInterpolator := e,
                        rangeSpreadingLossInterpolator := r, scallopingGainMap := g,
                        load_denoParams := d, IPFversion := v, satID := s, sensingDate := t \<rparr>"
    and "lib' \<equiv> lib\<lparr> corrcoef := c, convolve := cv, convolve_index := ci, format_1f := f \<rparr>"
  shows "subswathIndexMap img' p = subswathIndexMap img p"
    and "calibrationVectorMap lib' img' p = calibrationVectorMap lib img p"
    and "noiseVectorMap lib' img' p False = noiseVectorMap lib img p False"
    and "rawSigma0Map lib' img' p = rawSigma0Map lib img p"
    and "rawNoiseEquivalentSigma0Map lib' img' p False = rawNoiseEquivalentSigma0Map lib img p False"
proof -
  show swi: "subswathIndexMap img' p = subswathIndexMap img p"
    by (simp add: subswathIndexMap_def img'_def)
  have row: "interp_row lib' = interp_row lib"
    by (simp add: interp_row_def lib'_def fun_eq_iff cong: if_cong)
  have si: "swath_interpolator lib' = swath_interpolator lib"
    by (simp add: swath_interpolator_def lib'_def fun_eq_iff cong: if_cong)
  have az: "apply_azimuth_block lib' = apply_azimuth_block lib"
    by (auto simp: apply_azimuth_block_def lib'_def fun_eq_iff Let_def split: azimuthLut.splits)
  show cal: "calibrationVectorMap lib' img' p = calibrationVectorMap lib img p"
    unfolding calibrationVectorMap_def swi row si by (simp add: img'_def)
  show noise: "noiseVectorMap lib' img' p False = noiseVectorMap lib img p False"
    unfolding noiseVectorMap_def swi row si az by (simp add: img'_def)
  show "rawSigma0Map lib' img' p = rawSigma0Map lib img p"
    unfolding rawSigma0Map_def cal by (simp add: img'_def)
  show "rawNoiseEquivalentSigma0Map lib' img' p False = rawNoiseEquivalentSigma0Map lib img p False"
    unfolding rawNoiseEquivalentSigma0Map_def cal noise swi
    by (simp add: img'_def Let_def cong: if_cong)
qed

text \<open>
  Claim C3. With \<open>algorithm='ESA'\<close> the noise-equivalent sigma nought that
  \<open>thermalNoiseRemoval\<close> subtracts, and returns with \<open>returnNESZ\<close>, is the result of
  \<open>rawNoiseEquivalentSigma0Map\<close> without \<open>lutShift\<close>, as it is (that map includes its
  own pre-scaling of very low noise vectors). Nothing of the corrected variant has a
  part in the result: it is the same whatever the antenna and range interpolators of
  the LUT shift, the scalloping gain, the file of denoising coefficients, the version
  by which they are looked up, the convolution of the adaptive scaling and the flag
  \<open>localNoisePowerCompensation\<close> are.
\<close>

theorem thermalNoiseRemoval_ESA_raw_noise:
  assumes "thermalNoiseRemoval lib img polarization (PyStr ''ESA'') lnpc ptp rn = Inr out"
  shows "\<exists>preserve raw nesz.
     ptp = PyBool preserve \<and>
     rawSigma0Map lib img polarization = Inr raw \<and>
     rawNoiseEquivalentSigma0Map lib img polarization False = Inr nesz \<and>
     out = (if rn
            then NESZ_Sigma0 nesz (post_filter (PyStr ''ESA'') raw
                   (noise_subtraction (shape img) raw nesz preserve))
            else Sigma0 (post_filter (PyStr ''ESA'') raw
                   (noise_subtraction (shape img) raw nesz preserve))) \<and>
     thermalNoiseRemoval
       (lib\<lparr> corrcoef := c, convolve := cv, convolve_index := ci, format_1f := f \<rparr>)
       (img\<lparr> annotatedElevationAngleIntp := a, elevationAntennaPatternInterpolator := e,
             rangeSpreadingLossInterpolator := r, scallopingGainMap := g,
             load_denoParams := d, IPFversion := v, satID := s, sensingDate := t \<rparr>)
       polarization (PyStr ''ESA'') lnpc' ptp rn = Inr out"
proof -
  from thermalNoiseRemoval_Inr[OF assms]
  obtain preserve swi raw nesz where
    p: "ptp = PyBool preserve" and
    swi: "subswathIndexMap img polarization = Inr swi" and
    raw: "rawSigma0Map lib img polarization = Inr raw" and
    nesz: "rawNoiseEquivalentSigma0Map lib img polarization False = Inr nesz" and
    out: "out = (if rn
            then NESZ_Sigma0 nesz (post_filter (PyStr ''ESA'') raw
                   (noise_subtraction (shape img) raw nesz preserve))
            else Sigma0 (post_filter (PyStr ''ESA'') raw
                   (noise_subtraction (shape img) raw nesz preserve)))"
    by auto
  have "thermalNoiseRemoval
       (lib\<lparr> corrcoef := c, convolve := cv, convolve_index := ci, format_1f := f \<rparr>)
       (img\<lparr> annotatedElevationAngleIntp := a, elevationAntennaPatternInterpolator := e,
             rangeSpreadingLossInterpolator := r, scallopingGainMap := g,
             load_denoParams := d, IPFversion := v, satID := s, sensingDate := t \<rparr>)
       polarization (PyStr ''ESA'') lnpc' ptp rn = Inr out"
    unfolding thermalNoiseRemoval_def unrelated_fields
    by (simp add: p swi raw nesz out and_then_def)
  with p raw nesz out show ?thesis by blast
qed


subsection \<open>The theorems on the sample product\<close>

theorem thermalNoiseRemoval_post_filter_witness:
  "\<exists>out. thermalNoiseRemoval sample_lib sample_img ''HH'' (PyStr ''ESA'') False (PyBool False) False
            = Inr out \<and>
         denoised_sigma0 out 0 0 = Fin (1 / 4) \<and> denoised_sigma0 out 0 4 = Fin 0"
proof -
  let ?out = "Sigma0 (post_filter (PyStr ''ESA'') sample_raw
                        (noise_subtraction (3, 12) sample_raw sample_nesz False))"
  have run: "thermalNoiseRemoval sample_lib sample_img ''HH'' (PyStr ''ESA'') False (PyBool False)
      False = Inr ?out"
    by (rule sample_thermalNoiseRemoval)
  from thermalNoiseRemoval_post_filter[OF run]
  obtain preserve raw nesz where
    p: "PyBool False = PyBool preserve" and
    raw: "rawSigma0Map sample_lib sample_img ''HH'' = Inr raw" and
    nesz: "rawNoiseEquivalentSigma0Map sample_lib sample_img ''HH'' False = Inr nesz" and
    px: "\<forall>y x. denoised_sigma0 ?out y x =
           (if fl_lt (noise_subtraction (shape sample_img) raw nesz preserve y x) (Fin 0) then Fin 0
            else noise_subtraction (shape sample_img) raw nesz preserve y x)"
    by blast
  from p have p': "preserve = False" by simp
  from raw have raw': "raw = sample_raw" by (simp add: sample_rawSigma0Map)
  from nesz have nesz': "nesz = sample_nesz" by (simp add: sample_rawNoiseEquivalentSigma0Map)
  from px have "denoised_sigma0 ?out 0 0 = Fin (1 / 4)"
    unfolding p' raw' nesz' sample_img_fields by (simp add: sample_subtraction)
  moreover from px have "denoised_sigma0 ?out 0 4 = Fin 0"
    unfolding p' raw' nesz' sample_img_fields by (simp add: sample_subtraction)
  ultimately show ?thesis using run by blast
qed

lemma sample_finite:
  "\<forall>y < fst (3, 12). \<forall>x < snd (3, 12). isfinite (sample_raw y x) \<and> isfinite (sample_nesz y x)"
  by (simp add: sample_raw_def sample_nesz_def sample_swi_def)

text \<open>
  On the sample product, with \<open>'ESA'\<close> and \<open>preserveTotalPower=True\<close>, the pixel of
  line 0 and pixel 4 has raw sigma nought 0 and noise 4, the mean noise is 10/3, and
  the raster returned is 0 there, not \<open>0 - 4 + 10/3\<close> as claim C2 has it for the
  output.
\<close>

theorem thermalNoiseRemoval_clips_preserved_power:
  "rawSigma0Map sample_lib sample_img ''HH'' = Inr sample_raw \<and>
   rawNoiseEquivalentSigma0Map sample_lib sample_img ''HH'' False = Inr sample_nesz \<and>
   fl_add (fl_sub (sample_raw 0 4) (sample_nesz 0 4)) (nanmean (pixels (3, 12) sample_nesz))
     = Fin (- 2 / 3) \<and>
   (\<exists>out. thermalNoiseRemoval sample_lib sample_img ''HH'' (PyStr ''ESA'') False (PyBool True) False
            = Inr out \<and>
          denoised_sigma0 out 0 4 = Fin 0)"
proof -
  have "fl_add (fl_sub (sample_raw 0 4) (sample_nesz 0 4)) (nanmean (pixels (3, 12) sample_nesz))
     = Fin (- 2 / 3)"
    unfolding sample_nanmean
    by (simp add: sample_raw_def sample_nesz_def sample_swi_def fl_sub_def)
  moreover have "denoised_sigma0 (Sigma0 (post_filter (PyStr ''ESA'') sample_raw
                        (noise_subtraction (3, 12) sample_raw sample_nesz True))) 0 4 = Fin 0"
    by (simp add: post_filter_def fill_where_def sample_subtraction)
  ultimately show ?thesis
    using sample_thermalNoiseRemoval[of "''HH''" False True]
      sample_rawSigma0Map[of "''HH''"] sample_rawNoiseEquivalentSigma0Map[of "''HH''"]
    by blast
qed

theorem preserveTotalPower_adds_mean_witness:
  "np_mean (pixels (3, 12)
      (raster_map2 fl_sub sample_raw (noise_subtraction (3, 12) sample_raw sample_nesz True)))
     = fl_sub (np_mean (pixels (3, 12) sample_nesz)) (nanmean (pixels (3, 12) sample_nesz)) \<and>
   (\<exists>out. thermalNoiseRemoval sample_lib sample_img ''HH'' (PyStr ''ESA'') False (PyBool True) False
            = Inr out \<and>
          denoised_sigma0 out 0 0 = Fin (43 / 12))"
proof -
  let ?out = "Sigma0 (post_filter (PyStr ''ESA'') sample_raw
                        (noise_subtraction (3, 12) sample_raw sample_nesz True))"
  have run: "thermalNoiseRemoval sample_lib sample_img ''HH'' (PyStr ''ESA'') False (PyBool True)
      False = Inr ?out"
    by (rule sample_thermalNoiseRemoval)
  note T = preserveTotalPower_adds_mean
    [of "(3, 12)" sample_raw sample_nesz 0 0 sample_lib sample_img "''HH''" "PyStr ''ESA''"
        False False ?out]
  have m: "np_mean (pixels (3, 12)
      (raster_map2 fl_sub sample_raw (noise_subtraction (3, 12) sample_raw sample_nesz True)))
     = fl_sub (np_mean (pixels (3, 12) sample_nesz)) (nanmean (pixels (3, 12) sample_nesz))"
    using T sample_finite by simp
  from T run obtain raw' nesz' where
    raw: "rawSigma0Map sample_lib sample_img ''HH'' = Inr raw'" and
    nesz: "rawNoiseEquivalentSigma0Map sample_lib sample_img ''HH'' False = Inr nesz'" and
    px: "\<forall>y x.
            (PyStr ''ESA'' = PyStr ''ESA'' \<and>
               \<not> fl_lt (noise_subtraction (shape sample_img) raw' nesz' True y x) (Fin 0)
             \<or> PyStr ''ESA'' = PyStr ''NERSC'' \<and>
               \<not> fl_eq (raw' y x) (Fin 0) \<and> \<not> fl_lt (raw' y x) (Fin (1 / 10000))) \<longrightarrow>
            denoised_sigma0 ?out y x
              = fl_add (fl_sub (raw' y x) (nesz' y x)) (nanmean (pixels (shape sample_img) nesz'))"
    by auto
  from raw have raw': "raw' = sample_raw" by (simp add: sample_rawSigma0Map)
  from nesz have nesz': "nesz' = sample_nesz" by (simp add: sample_rawNoiseEquivalentSigma0Map)
  have "\<not> fl_lt (noise_subtraction (3, 12) sample_raw sample_nesz True 0 0) (Fin 0)"
    by (simp add: sample_subtraction)
  with px have "denoised_sigma0 ?out 0 0
      = fl_add (fl_sub (sample_raw 0 0) (sample_nesz 0 0)) (nanmean (pixels (3, 12) sample_nesz))"
    unfolding raw' nesz' sample_img_fields by blast
  also have "\<dots> = Fin (43 / 12)"
    unfolding sample_nanmean by (simp add: sample_raw_def sample_nesz_def sample_swi_def fl_sub_def)
  finally show ?thesis using m run by blast
qed

theorem thermalNoiseRemoval_ESA_raw_noise_witness:
  "\<exists>out. thermalNoiseRemoval sample_lib sample_img ''HH'' (PyStr ''ESA'') False (PyBool False) True
            = Inr out \<and>
         out = NESZ_Sigma0 sample_nesz (post_filter (PyStr ''ESA'') sample_raw
                   (noise_subtraction (3, 12) sample_raw sample_nesz False)) \<and>
         thermalNoiseRemoval
           (sample_lib\<lparr> corrcoef := (\<lambda>a b. Fin 1), convolve := (\<lambda>sh a w. nan_raster),
                        convolve_index := (\<lambda>sh a w y x. 0), format_1f := (\<lambda>v. ''0.0'') \<rparr>)
           (sample_img\<lparr> annotatedElevationAngleIntp := (\<lambda>p. Inl (KeyError p)),
                        elevationAntennaPatternInterpolator := (\<lambda>p. Inl (KeyError p)),
                        rangeSpreadingLossInterpolator := (\<lambda>p. Inl (KeyError p)),
                        scallopingGainMap := (\<lambda>p. Inl (KeyError p)),
                        load_denoParams := (\<lambda>p. Inl (KeyError p)),
                        IPFversion := 27 / 10, satID := ''S1B'', sensingDate := 0 \<rparr>)
           ''HH'' (PyStr ''ESA'') True (PyBool False) True = Inr out"
proof -
  have run: "thermalNoiseRemoval sample_lib sample_img ''HH'' (PyStr ''ESA'') False (PyBool False)
      True = Inr (NESZ_Sigma0 sample_nesz (post_filter (PyStr ''ESA'') sample_raw
                   (noise_subtraction (3, 12) sample_raw sample_nesz False)))"
    by (simp add: thermalNoiseRemoval_def sample_subswathIndexMap sample_rawSigma0Map
      sample_rawNoiseEquivalentSigma0Map and_then_def sample_img_fields)
  from thermalNoiseRemoval_ESA_raw_noise[OF run] run show ?thesis
    by blast
qed

text \<open>A product whose every table, band and raster raises when it is read.\<close>

definition unreadable_img :: Sentinel1Image where
  "unreadable_img =
     sample_img\<lparr> DN := (\<lambda>p. Inl (KeyError p)),
                  import_swathBounds := (\<lambda>p. Inl (KeyError p)),
                  import_calibrationVector := (\<lambda>p. Inl (KeyError p)),
                  import_noiseVector := (\<lambda>p. Inl (KeyError p)),
                  annotatedElevationAngleIntp := (\<lambda>p. Inl (KeyError p)),
                  elevationAntennaPatternInterpolator := (\<lambda>p. Inl (KeyError p)),
                  rangeSpreadingLossInterpolator := (\<lambda>p. Inl (KeyError p)),
                  scallopingGainMap := (\<lambda>p. Inl (KeyError p)),
                  load_denoParams := (\<lambda>p. Inl (KeyError p)) \<rparr>"

theorem thermalNoiseRemoval_validation_witness:
  "thermalNoiseRemoval sample_lib unreadable_img ''HH'' (PyStr ''SNAP'') False (PyBool True) False
     = Inl (ValueError ''algorithm must be ESA or NERSC'') \<and>
   thermalNoiseRemoval sample_lib unreadable_img ''HH'' (PyStr ''NERSC'') False (PyInt 1) False
     = Inl (ValueError ''preserveTotalPower must be True or False'') \<and>
   thermalNoiseRemoval sample_lib unreadable_img ''HH'' (PyStr ''NERSC'') False (PyBool True) False
     = Inl (KeyError ''HH'') \<and>
   (\<exists>out. thermalNoiseRemoval sample_lib sample_img ''HH'' (PyStr ''ESA'') False (PyBool True) False
            = Inr out)"
proof -
  have a: "thermalNoiseRemoval sample_lib unreadable_img ''HH'' (PyStr ''SNAP'') False
      (PyBool True) False = Inl (ValueError ''algorithm must be ESA or NERSC'')"
    using thermalNoiseRemoval_validation
      [where algorithm = "PyStr ''SNAP''" and lib = sample_lib and img = unreadable_img
         and polarization = "''HH''" and lnpc = False and ptp = "PyBool True" and rn = False]
    by simp
  have b: "thermalNoiseRemoval sample_lib unreadable_img ''HH'' (PyStr ''NERSC'') False
      (PyInt 1) False = Inl (ValueError ''preserveTotalPower must be True or False'')"
    using thermalNoiseRemoval_validation
      [where algorithm = "PyStr ''NERSC''" and lib = sample_lib and img = unreadable_img
         and polarization = "''HH''" and lnpc = False and ptp = "PyInt 1" and rn = False]
    by simp
  have c: "thermalNoiseRemoval sample_lib unreadable_img ''HH'' (PyStr ''NERSC'') False
      (PyBool True) False = Inl (KeyError ''HH'')"
    by (simp add: thermalNoiseRemoval_def subswathIndexMap_def unreadable_img_def and_then_def)
  have d: "\<exists>out. thermalNoiseRemoval sample_lib sample_img ''HH'' (PyStr ''ESA'') False
      (PyBool True) False = Inr out"
    using thermalNoiseRemoval_validation
      [where algorithm = "PyStr ''ESA''" and lib = sample_lib and img = sample_img
         and polarization = "''HH''" and lnpc = False and ptp = "PyBool True" and rn = False
         and b = True]
      sample_subswathIndexMap[of "''HH''"] sample_rawSigma0Map[of "''HH''"]
      sample_rawNoiseEquivalentSigma0Map[of "''HH''"]
    by simp
  from a b c d show ?thesis by blast
qed



section \<open>Properties of the denoising coefficients\<close>

lemma subswathID_not_axis:
  "subswathID m i \<noteq> ''SNR''" "subswathID m i \<noteq> ''SNNR''"
  "''SNR'' \<noteq> subswathID m i" "''SNNR'' \<noteq> subswathID m i"
  by (cases m; simp add: subswathID_def)+

lemma extraScaling_other [simp]:
  "extraScaling (import_noiseScaling dp ver sid c) = extraScaling c"
  "extraScaling (import_powerBalancing dp ver sid c) = extraScaling c"
  "extraScaling (import_noiseVariance dp sid c) = extraScaling c"
  by (simp_all add: import_noiseScaling_def import_powerBalancing_def import_noiseVariance_def
      split: option.splits sum.splits)

lemma noiseScaling_other [simp]:
  "noiseScaling (import_powerBalancing dp ver sid c) = noiseScaling c"
  "noiseScaling (import_extraScaling dp sid c) = noiseScaling c"
  "noiseScaling (import_noiseVariance dp sid c) = noiseScaling c"
  by (simp_all add: import_extraScaling_def import_powerBalancing_def import_noiseVariance_def
      split: option.splits sum.splits prod.splits)

lemma powerBalancing_other [simp]:
  "powerBalancing (import_noiseScaling dp ver sid c) = powerBalancing c"
  "powerBalancing (import_extraScaling dp sid c) = powerBalancing c"
  "powerBalancing (import_noiseVariance dp sid c) = powerBalancing c"
  by (simp_all add: import_extraScaling_def import_noiseScaling_def import_noiseVariance_def
      split: option.splits sum.splits prod.splits)

text \<open>The entry of a subswath and a version in a field of the file, if there is one.\<close>

definition versioned_entry ::
  "(string \<rightharpoonup> (string \<rightharpoonup> fl)) option \<Rightarrow> string \<Rightarrow> string \<Rightarrow> fl option" where
  "versioned_entry field sid ver =
     (case field of None \<Rightarrow> None
      | Some d \<Rightarrow> (case d sid of None \<Rightarrow> None | Some byVersion \<Rightarrow> byVersion ver))"

lemma import_subswath_extra_missing:
  assumes "extraScalingParameters dp = None"
  shows "extraScaling (import_subswath dp ver sid c)
       = (extraScaling c)(''SNNR'' \<mapsto> default_SNNR, sid \<mapsto> default_extraScaling)"
  using assms by (simp add: import_subswath_def import_extraScaling_def)

lemma import_subswath_scaling:
  "noiseScaling (import_subswath dp ver sid c)
     = (noiseScaling c)(sid \<mapsto>
         (case versioned_entry (noiseScalingParameters dp) sid ver of
            None \<Rightarrow> Fin 1 | Some v \<Rightarrow> v))"
  by (simp add: import_subswath_def import_noiseScaling_def versioned_entry_def lookup_def
      and_then_def split: option.splits)

lemma import_subswath_balancing:
  "powerBalancing (import_subswath dp ver sid c)
     = (powerBalancing c)(sid \<mapsto>
         (case versioned_entry (powerBalancingParameters dp) sid ver of
            None \<Rightarrow> Fin 0 | Some v \<Rightarrow> v))"
  by (simp add: import_subswath_def import_powerBalancing_def versioned_entry_def lookup_def
      and_then_def split: option.splits)

lemma subswathID_inj:
  "i \<in> set (subswaths m) \<Longrightarrow> j \<in> set (subswaths m) \<Longrightarrow>
   subswathID m i = subswathID m j \<Longrightarrow> i = j"
  by (cases m) (auto simp: subswaths_def numberOfSubswaths_def subswathID_def split: if_splits)

lemma printed_grows:
  "set (printed c) \<subseteq> set (printed (import_noiseScaling dp ver sid c))"
  "set (printed c) \<subseteq> set (printed (import_powerBalancing dp ver sid c))"
  "set (printed c) \<subseteq> set (printed (import_extraScaling dp sid c))"
  "set (printed c) \<subseteq> set (printed (import_noiseVariance dp sid c))"
  by (auto simp: import_noiseScaling_def import_powerBalancing_def import_extraScaling_def
      import_noiseVariance_def split: option.splits sum.splits prod.splits)

lemma printed_import_subswath: "set (printed c) \<subseteq> set (printed (import_subswath dp ver sid c))"
  unfolding import_subswath_def
  by (meson printed_grows subset_trans)

lemma scaling_warning:
  assumes "versioned_entry (noiseScalingParameters dp) sid ver = None"
  shows "MissingEntry ''noise scaling'' sid \<in> set (printed (import_subswath dp ver sid c)) \<or>
         MissingField ''noiseScalingParameters'' \<in> set (printed (import_subswath dp ver sid c))"
proof -
  have "MissingEntry ''noise scaling'' sid \<in> set (printed (import_noiseScaling dp ver sid c)) \<or>
        MissingField ''noiseScalingParameters'' \<in> set (printed (import_noiseScaling dp ver sid c))"
    using assms
    by (auto simp: import_noiseScaling_def versioned_entry_def lookup_def and_then_def
        split: option.splits)
  moreover have "set (printed (import_noiseScaling dp ver sid c))
      \<subseteq> set (printed (import_subswath dp ver sid c))"
    unfolding import_subswath_def by (meson printed_grows subset_trans)
  ultimately show ?thesis by blast
qed

lemma balancing_warning:
  assumes "versioned_entry (powerBalancingParameters dp) sid ver = None"
  shows "MissingEntry ''power balancing'' sid \<in> set (printed (import_subswath dp ver sid c)) \<or>
         MissingField ''powerBalancingParameters'' \<in> set (printed (import_subswath dp ver sid c))"
proof -
  let ?c1 = "import_noiseScaling dp ver sid c"
  have "MissingEntry ''power balancing'' sid \<in> set (printed (import_powerBalancing dp ver sid ?c1)) \<or>
        MissingField ''powerBalancingParameters''
          \<in> set (printed (import_powerBalancing dp ver sid ?c1))"
    using assms
    by (auto simp: import_powerBalancing_def versioned_entry_def lookup_def and_then_def
        split: option.splits)
  moreover have "set (printed (import_powerBalancing dp ver sid ?c1))
      \<subseteq> set (printed (import_subswath dp ver sid c))"
    unfolding import_subswath_def by (meson printed_grows subset_trans)
  ultimately show ?thesis by blast
qed

text \<open>The loop of \<open>import_denoisingCoefficients\<close> over a list of subswaths.\<close>

definition import_loop ::
  "denoParams \<Rightarrow> string \<Rightarrow> obsMode \<Rightarrow> coefficients \<Rightarrow> nat list \<Rightarrow> coefficients" where
  "import_loop dp ver m c0 xs = foldl (\<lambda>c iSW. import_subswath dp ver (subswathID m iSW) c) c0 xs"

lemma import_loop_snoc:
  "import_loop dp ver m c0 (xs @ [x]) = import_subswath dp ver (subswathID m x) (import_loop dp ver m c0 xs)"
  by (simp add: import_loop_def)

lemma import_loop_printed: "set (printed c0) \<subseteq> set (printed (import_loop dp ver m c0 xs))"
proof (induction xs rule: rev_induct)
  case Nil
  then show ?case by (simp add: import_loop_def)
next
  case (snoc x xs)
  then show ?case
    unfolding import_loop_snoc using printed_import_subswath by blast
qed

lemma import_loop_scaling:
  "i \<in> set xs \<Longrightarrow>
   noiseScaling (import_loop dp ver m c0 xs) (subswathID m i)
     = Some (case versioned_entry (noiseScalingParameters dp) (subswathID m i) ver of
               None \<Rightarrow> Fin 1 | Some v \<Rightarrow> v)"
proof (induction xs rule: rev_induct)
  case Nil
  then show ?case by simp
next
  case (snoc x xs)
  then show ?case
    unfolding import_loop_snoc import_subswath_scaling by auto
qed

lemma import_loop_balancing:
  "i \<in> set xs \<Longrightarrow>
   powerBalancing (import_loop dp ver m c0 xs) (subswathID m i)
     = Some (case versioned_entry (powerBalancingParameters dp) (subswathID m i) ver of
               None \<Rightarrow> Fin 0 | Some v \<Rightarrow> v)"
proof (induction xs rule: rev_induct)
  case Nil
  then show ?case by simp
next
  case (snoc x xs)
  then show ?case
    unfolding import_loop_snoc import_subswath_balancing by auto
qed

lemma import_loop_scaling_warning:
  assumes "i \<in> set xs"
    and "versioned_entry (noiseScalingParameters dp) (subswathID m i) ver = None"
  shows "MissingEntry ''noise scaling'' (subswathID m i) \<in> set (printed (import_loop dp ver m c0 xs)) \<or>
         MissingField ''noiseScalingParameters'' \<in> set (printed (import_loop dp ver m c0 xs))"
  using assms(1)
proof (induction xs rule: rev_induct)
  case Nil
  then show ?case by simp
next
  case (snoc x xs)
  show ?case
  proof (cases "i = x")
    case True
    then show ?thesis
      unfolding import_loop_snoc using scaling_warning[OF assms(2)] by simp
  next
    case False
    with snoc have "MissingEntry ''noise scaling'' (subswathID m i)
          \<in> set (printed (import_loop dp ver m c0 xs)) \<or>
        MissingField ''noiseScalingParameters'' \<in> set (printed (import_loop dp ver m c0 xs))"
      by simp
    then show ?thesis
      unfolding import_loop_snoc using printed_import_subswath by blast
  qed
qed

lemma import_loop_balancing_warning:
  assumes "i \<in> set xs"
    and "versioned_entry (powerBalancingParameters dp) (subswathID m i) ver = None"
  shows "MissingEntry ''power balancing'' (subswathID m i)
           \<in> set (printed (import_loop dp ver m c0 xs)) \<or>
         MissingField ''powerBalancingParameters'' \<in> set (printed (import_loop dp ver m c0 xs))"
  using assms(1)
proof (induction xs rule: rev_induct)
  case Nil
  then show ?case by simp
next
  case (snoc x xs)
  show ?case
  proof (cases "i = x")
    case True
    then show ?thesis
      unfolding import_loop_snoc using balancing_warning[OF assms(2)] by simp
  next
    case False
    with snoc have "MissingEntry ''power balancing'' (subswathID m i)
          \<in> set (printed (import_loop dp ver m c0 xs)) \<or>
        MissingField ''powerBalancingParameters'' \<in> set (printed (import_loop dp ver m c0 xs))"
      by simp
    then show ?thesis
      unfolding import_loop_snoc using printed_import_subswath by blast
  qed
qed

lemma import_loop_extra_missing:
  assumes "extraScalingParameters dp = None"
  shows "extraScaling (import_loop dp ver m c0 xs) ''SNR'' = extraScaling c0 ''SNR'' \<and>
         (xs \<noteq> [] \<longrightarrow> extraScaling (import_loop dp ver m c0 xs) ''SNNR'' = Some default_SNNR) \<and>
         (\<forall>i \<in> set xs. extraScaling (import_loop dp ver m c0 xs) (subswathID m i)
                          = Some default_extraScaling)"
proof (induction xs rule: rev_induct)
  case Nil
  then show ?case by (simp add: import_loop_def)
next
  case (snoc x xs)
  then show ?case
    unfolding import_loop_snoc import_subswath_extra_missing[OF assms]
    by (auto simp: subswathID_not_axis)
qed

lemma subswaths_Cons: "subswaths m = Suc 0 # [2..<numberOfSubswaths m + 1]"
  by (cases m) (simp_all add: subswaths_def numberOfSubswaths_def upt_rec)

lemma adaptiveNoiseScaling_fails_first:
  assumes "extra ''SNR'' = Some snr" "extra (subswathID m (Suc 0)) = Some curve"
    and "InterpolatedUnivariateSpline lib snr curve 3 = Inl e"
  shows "adaptiveNoiseScaling lib sh m sigma0 nesz swi extra w = Inl e"
  using assms
  by (simp add: adaptiveNoiseScaling_def Let_def subswaths_Cons and_then_def lookup_def)

text \<open>
  Claim C8, on the code. When the file has no entry of a subswath for the version,
  \<open>import_denoisingCoefficients\<close> takes the scaling factor 1 and the balancing offset 0
  and prints a warning. The extra scaling is not looked up by version; when the file
  has no extra scaling parameters the curve of every subswath is \<open>np.ones(601)\<close>, but
  the default SNR axis is stored under the key \<open>'SNNR'\<close>, and the key \<open>'SNR'\<close> that
  \<open>adaptiveNoiseScaling\<close> reads keeps its initial empty list: the adaptive noise
  scaling then builds a spline over no abscissa and 601 ordinates, and raises whenever
  the spline constructor rejects that.
\<close>

theorem import_denoisingCoefficients_defaults:
  assumes "load_denoParams img p = Inr dp"
  shows "\<exists>c. import_denoisingCoefficients lib img p = Inr c \<and>
     (\<forall>i \<in> set (subswaths (obsMode img)).
        (versioned_entry (noiseScalingParameters dp) (subswathID (obsMode img) i)
             (format_1f lib (coefficient_version img)) = None \<longrightarrow>
           noiseScaling c (subswathID (obsMode img) i) = Some (Fin 1) \<and>
           (MissingEntry ''noise scaling'' (subswathID (obsMode img) i) \<in> set (printed c) \<or>
            MissingField ''noiseScalingParameters'' \<in> set (printed c))) \<and>
        (versioned_entry (powerBalancingParameters dp) (subswathID (obsMode img) i)
             (format_1f lib (coefficient_version img)) = None \<longrightarrow>
           powerBalancing c (subswathID (obsMode img) i) = Some (Fin 0) \<and>
           (MissingEntry ''power balancing'' (subswathID (obsMode img) i) \<in> set (printed c) \<or>
            MissingField ''powerBalancingParameters'' \<in> set (printed c)))) \<and>
     (extraScalingParameters dp = None \<longrightarrow>
        extraScaling c ''SNR'' = Some [] \<and>
        extraScaling c ''SNNR'' = Some default_SNNR \<and>
        (\<forall>i \<in> set (subswaths (obsMode img)).
           extraScaling c (subswathID (obsMode img) i) = Some default_extraScaling) \<and>
        (\<forall>e. InterpolatedUnivariateSpline lib [] default_extraScaling 3 = Inl e \<longrightarrow>
           adaptiveNoiseScaling lib sh (obsMode img) sigma0 nesz swi (extraScaling c) 5 = Inl e))"
proof -
  let ?m = "obsMode img"
  let ?ver = "format_1f lib (coefficient_version img)"
  let ?c = "import_loop dp ?ver ?m initial_coefficients (subswaths ?m)"
  have run: "import_denoisingCoefficients lib img p = Inr ?c"
    using assms by (simp add: import_denoisingCoefficients_def and_then_def import_loop_def)
  have first: "Suc 0 \<in> set (subswaths ?m)" "subswaths ?m \<noteq> []"
    by (simp_all add: subswaths_Cons)
  have A: "\<forall>i \<in> set (subswaths ?m).
        (versioned_entry (noiseScalingParameters dp) (subswathID ?m i) ?ver = None \<longrightarrow>
           noiseScaling ?c (subswathID ?m i) = Some (Fin 1) \<and>
           (MissingEntry ''noise scaling'' (subswathID ?m i) \<in> set (printed ?c) \<or>
            MissingField ''noiseScalingParameters'' \<in> set (printed ?c))) \<and>
        (versioned_entry (powerBalancingParameters dp) (subswathID ?m i) ?ver = None \<longrightarrow>
           powerBalancing ?c (subswathID ?m i) = Some (Fin 0) \<and>
           (MissingEntry ''power balancing'' (subswathID ?m i) \<in> set (printed ?c) \<or>
            MissingField ''powerBalancingParameters'' \<in> set (printed ?c)))"
    using import_loop_scaling[of _ "subswaths ?m" dp ?ver ?m initial_coefficients]
      import_loop_balancing[of _ "subswaths ?m" dp ?ver ?m initial_coefficients]
      import_loop_scaling_warning[of _ "subswaths ?m" dp ?m ?ver initial_coefficients]
      import_loop_balancing_warning[of _ "subswaths ?m" dp ?m ?ver initial_coefficients]
    by simp
  have B: "extraScalingParameters dp = None \<longrightarrow>
        extraScaling ?c ''SNR'' = Some [] \<and>
        extraScaling ?c ''SNNR'' = Some default_SNNR \<and>
        (\<forall>i \<in> set (subswaths ?m). extraScaling ?c (subswathID ?m i) = Some default_extraScaling) \<and>
        (\<forall>e. InterpolatedUnivariateSpline lib [] default_extraScaling 3 = Inl e \<longrightarrow>
           adaptiveNoiseScaling lib sh ?m sigma0 nesz swi (extraScaling ?c) 5 = Inl e)"
  proof
    assume none: "extraScalingParameters dp = None"
    note L = import_loop_extra_missing[OF none, of ?ver ?m initial_coefficients "subswaths ?m"]
    have snr: "extraScaling ?c ''SNR'' = Some []"
      using L by (simp add: initial_coefficients_def)
    have snnr: "extraScaling ?c ''SNNR'' = Some default_SNNR"
      using L first by simp
    have ids: "\<forall>i \<in> set (subswaths ?m). extraScaling ?c (subswathID ?m i) = Some default_extraScaling"
      using L by simp
    have one: "extraScaling ?c (subswathID ?m (Suc 0)) = Some default_extraScaling"
      using ids first by blast
    have "\<forall>e. InterpolatedUnivariateSpline lib [] default_extraScaling 3 = Inl e \<longrightarrow>
           adaptiveNoiseScaling lib sh ?m sigma0 nesz swi (extraScaling ?c) 5 = Inl e"
    proof (intro allI impI)
      fix e assume "InterpolatedUnivariateSpline lib [] default_extraScaling 3 = Inl e"
      then show "adaptiveNoiseScaling lib sh ?m sigma0 nesz swi (extraScaling ?c) 5 = Inl e"
        by (rule adaptiveNoiseScaling_fails_first[OF snr one])
    qed
    with snr snnr ids show "extraScaling ?c ''SNR'' = Some [] \<and>
        extraScaling ?c ''SNNR'' = Some default_SNNR \<and>
        (\<forall>i \<in> set (subswaths ?m). extraScaling ?c (subswathID ?m i) = Some default_extraScaling) \<and>
        (\<forall>e. InterpolatedUnivariateSpline lib [] default_extraScaling 3 = Inl e \<longrightarrow>
           adaptiveNoiseScaling lib sh ?m sigma0 nesz swi (extraScaling ?c) 5 = Inl e)"
      by blast
  qed
  show ?thesis
    by (rule exI[of _ ?c]) (intro conjI run A B)
qed

theorem import_denoisingCoefficients_defaults_witness:
  "\<exists>c. import_denoisingCoefficients sample_lib sample_img ''HV'' = Inr c \<and>
       noiseScaling c ''IW1'' = Some (Fin 1) \<and>
       powerBalancing c ''IW1'' = Some (Fin 0) \<and>
       extraScaling c ''SNR'' = Some [] \<and>
       extraScaling c ''SNNR'' = Some default_SNNR \<and>
       extraScaling c ''IW1'' = Some default_extraScaling \<and>
       adaptiveNoiseScaling sample_lib (3, 12) IW sample_raw sample_nesz sample_swi (extraScaling c) 5
         = Inl (LibraryError ''(m>k) failed for hidden m'')"
proof -
  let ?dp = "\<lparr> noiseScalingParameters = None, powerBalancingParameters = None,
              extraScalingParameters = None, noiseVarianceParameters = None \<rparr>"
  have ld: "load_denoParams sample_img ''HV'' = Inr ?dp"
    by (simp add: sample_img_def)
  have spline: "InterpolatedUnivariateSpline sample_lib [] default_extraScaling 3
      = Inl (LibraryError ''(m>k) failed for hidden m'')"
    by (simp add: sample_lib_fields)
  note T = import_denoisingCoefficients_defaults
    [OF ld, of sample_lib "(3, 12)" sample_raw sample_nesz sample_swi]
  show ?thesis
    using T spline
    by (auto simp: versioned_entry_def sample_img_fields subswaths_IW subswathID_IW)
qed



section \<open>Power balancing\<close>

text \<open>
  The end of the loop body of \<open>experiment_powerBalancing\<close>, for one block of
  \<open>numberOfLinesToAverage\<close> lines: from the fitted lines of the subswaths (slope and
  offset, as \<open>np.polyfit\<close> returned them) to the balancing powers appended to the
  results.

  \<open>np.where(np.gradient(blockSWI,axis=1)==0.5)[1]\<close>: the columns, line after line, at
  which the central difference of the subswath index is one half, that is the two
  pixels on either side of a boundary between a subswath and the next one. The
  gradient at the two ends of a line is a difference of integers.
\<close>

definition gradient_half_columns :: "nat \<times> nat \<Rightarrow> indexmap \<Rightarrow> nat list" where
  "gradient_half_columns sh blockSWI =
     concat (map (\<lambda>y. filter (\<lambda>x. 0 < x \<and> x + 1 < snd sh \<and>
                                   int (blockSWI y (x + 1)) - int (blockSWI y (x - 1)) = 1)
                          [0..<snd sh])
                 [0..<fst sh])"

text \<open>
  \<open>.reshape(4*numberOfLinesToAverage,2)[li::4].mean()\<close>: the reshape raises unless
  there are \<open>8*numberOfLinesToAverage\<close> such columns.
\<close>

definition interswathBounds :: "nat \<times> nat \<Rightarrow> indexmap \<Rightarrow> nat \<Rightarrow> nat \<Rightarrow> error + fl" where
  "interswathBounds sh blockSWI numberOfLinesToAverage li =
     (let cols = gradient_half_columns sh blockSWI in
      if snd sh < 2 then
        Inl (ValueError ''Shape of array too small to calculate a numerical gradient'')
      else if length cols \<noteq> 4 * numberOfLinesToAverage * 2 then
        Inl (ValueError ''cannot reshape array'')
      else
        Inr (np_mean (concat (map (\<lambda>r. [Fin (real (cols ! (2 * r))), Fin (real (cols ! (2 * r + 1)))])
                                  (filter (\<lambda>r. r mod 4 = li) [0..<4 * numberOfLinesToAverage])))))"

text \<open>
  \<^verbatim>\<open>power1 = fitCoefficients[li][0] * interswathBounds + fitCoefficients[li][1]
power2 = fitCoefficients[li+1][0] * interswathBounds + fitCoefficients[li+1][1]
balancingPower[li+1] = power2 - power1\<close>

  A subswath that the block skipped has no entry in \<open>fitCoefficients\<close>, and the index
  raises.
\<close>

definition fitted_power :: "fl \<times> fl \<Rightarrow> fl \<Rightarrow> fl" where
  "fitted_power coeff x = fl_add (fl_mul (fst coeff) x) (snd coeff)"

definition power_step ::
  "nat \<times> nat \<Rightarrow> indexmap \<Rightarrow> nat \<Rightarrow> (fl \<times> fl) list \<Rightarrow> nat \<Rightarrow> error + fl" where
  "power_step sh blockSWI numberOfLinesToAverage fitCoefficients li =
     and_then (interswathBounds sh blockSWI numberOfLinesToAverage li) (\<lambda>bounds.
       if length fitCoefficients \<le> li + 1 then Inl (IndexError ''list index out of range'')
       else Inr (fl_sub (fitted_power (fitCoefficients ! (li + 1)) bounds)
                        (fitted_power (fitCoefficients ! li) bounds)))"

text \<open>\<open>np.cumsum\<close>\<close>

fun cumsum_from :: "fl \<Rightarrow> fl list \<Rightarrow> fl list" where
  "cumsum_from acc [] = []"
| "cumsum_from acc (x # xs) = fl_add acc x # cumsum_from (fl_add acc x) xs"

definition np_cumsum :: "fl list \<Rightarrow> fl list" where
  "np_cumsum xs = cumsum_from (Fin 0) xs"

text \<open>
  \<^verbatim>\<open>balancingPower = np.cumsum(balancingPower)
for iSW in range(1, {'IW':3, 'EW':5}[self.obsMode]+1):
    valid = (blockSWI==iSW)
    blockN0[valid] += balancingPower[iSW-1]
powerBias = np.nanmean((blockRN0-blockN0)[blockSWI>=2])
balancingPower += powerBias\<close>
\<close>

definition balanced_noise :: "obsMode \<Rightarrow> indexmap \<Rightarrow> fl list \<Rightarrow> raster \<Rightarrow> raster" where
  "balanced_noise m blockSWI balancingPower blockN0 =
     foldl (\<lambda>n iSW. assign_where (\<lambda>y x. blockSWI y x = iSW)
                       (\<lambda>y x. fl_add (n y x) (balancingPower ! (iSW - 1))) n)
           blockN0 (subswaths m)"

definition powerBias :: "nat \<times> nat \<Rightarrow> indexmap \<Rightarrow> raster \<Rightarrow> raster \<Rightarrow> fl" where
  "powerBias sh blockSWI blockRN0 blockN0 =
     nanmean (concat (map (\<lambda>y. map (\<lambda>x. fl_sub (blockRN0 y x) (blockN0 y x))
                                   (filter (\<lambda>x. 2 \<le> blockSWI y x) [0..<snd sh]))
                          [0..<fst sh]))"

definition balancingPower ::
  "obsMode \<Rightarrow> nat \<times> nat \<Rightarrow> nat \<Rightarrow> (fl \<times> fl) list \<Rightarrow> indexmap \<Rightarrow> raster \<Rightarrow> raster \<Rightarrow> error + fl list" where
  "balancingPower m sh numberOfLinesToAverage fitCoefficients blockSWI blockN0 blockRN0 =
     and_then (collect (map (power_step sh blockSWI numberOfLinesToAverage fitCoefficients)
                            [0, 1, 2, 3])) (\<lambda>steps.
       (let cumulative = np_cumsum (Fin 0 # steps);
            bias = powerBias sh blockSWI blockRN0 (balanced_noise m blockSWI cumulative blockN0)
        in Inr (map (\<lambda>b. fl_add b bias) cumulative)))"

subsection \<open>Properties\<close>

lemma collect_length: "collect rs = Inr vs \<Longrightarrow> length vs = length rs"
  by (drule collect_Inr) simp

lemma collect_nth: "collect rs = Inr vs \<Longrightarrow> i < length rs \<Longrightarrow> rs ! i = Inr (vs ! i)"
  by (drule collect_Inr) simp

lemma cumsum_from_finite:
  "cumsum_from (Fin a) (map Fin ds) = map (\<lambda>k. Fin (a + sum_list (take (Suc k) ds))) [0..<length ds]"
proof (induction ds arbitrary: a)
  case Nil
  then show ?case by simp
next
  case (Cons d ds)
  have "[0..<length (d # ds)] = 0 # map Suc [0..<length ds]"
    by (simp add: upt_conv_Cons map_Suc_upt del: upt_Suc)
  then show ?case
    by (simp add: Cons add.assoc comp_def del: upt_Suc)
qed

lemma np_cumsum_finite:
  "np_cumsum (Fin 0 # map Fin ds) = map (\<lambda>k. Fin (sum_list (take k ds))) [0..<Suc (length ds)]"
proof -
  have "np_cumsum (Fin 0 # map Fin ds) = Fin 0 # cumsum_from (Fin 0) (map Fin ds)"
    by (simp add: np_cumsum_def)
  also have "\<dots> = Fin (sum_list (take 0 ds))
      # map (\<lambda>k. Fin (sum_list (take (Suc k) ds))) [0..<length ds]"
    by (simp add: cumsum_from_finite)
  also have "\<dots> = map (\<lambda>k. Fin (sum_list (take k ds))) (0 # map Suc [0..<length ds])"
    by (simp add: comp_def)
  also have "0 # map Suc [0..<length ds] = [0..<Suc (length ds)]"
    by (simp add: upt_conv_Cons map_Suc_upt del: upt_Suc)
  finally show ?thesis .
qed

text \<open>
  Claim C9, as the code has it. For a block that is processed to its end, the four
  power steps are the differences of the fitted lines of adjacent subswaths, both
  evaluated at the mean pixel of their boundary; the balancing powers are the
  cumulative sum of these steps, which is zero for subswath 1, plus a bias that is
  added to all five of them: the NaN-ignoring mean, over the pixels of the subswaths
  2 and above, of the raw noise minus the balanced noise. The balancing power of
  subswath 1 that is stored is therefore this bias (for finite values, the \<open>k\<close>-th
  power is the sum of the first \<open>k\<close> steps plus the bias).
\<close>

theorem balancingPower_cumulative_plus_bias:
  assumes "balancingPower m sh n fitCoefficients blockSWI blockN0 blockRN0 = Inr bp"
  shows "\<exists>steps bias.
     length steps = 4 \<and>
     (\<forall>li < 4. \<exists>bounds.
        interswathBounds sh blockSWI n li = Inr bounds \<and> li + 1 < length fitCoefficients \<and>
        steps ! li = fl_sub (fitted_power (fitCoefficients ! (li + 1)) bounds)
                            (fitted_power (fitCoefficients ! li) bounds)) \<and>
     np_cumsum (Fin 0 # steps) ! 0 = Fin 0 \<and>
     bias = powerBias sh blockSWI blockRN0
              (balanced_noise m blockSWI (np_cumsum (Fin 0 # steps)) blockN0) \<and>
     bp = map (\<lambda>b. fl_add b bias) (np_cumsum (Fin 0 # steps)) \<and>
     bp ! 0 = fl_add (Fin 0) bias \<and>
     (\<forall>ds \<beta>. steps = map Fin ds \<and> bias = Fin \<beta> \<longrightarrow>
        bp = map (\<lambda>k. Fin (sum_list (take k ds) + \<beta>)) [0..<5] \<and> bp ! 0 = Fin \<beta>)"
proof -
  let ?rs = "map (power_step sh blockSWI n fitCoefficients) [0, 1, 2, 3]"
  from assms obtain steps where st: "collect ?rs = Inr steps"
    and bp: "bp = map (\<lambda>b. fl_add b (powerBias sh blockSWI blockRN0
              (balanced_noise m blockSWI (np_cumsum (Fin 0 # steps)) blockN0)))
              (np_cumsum (Fin 0 # steps))"
    by (auto simp: balancingPower_def and_then_Inr_iff Let_def)
  let ?bias = "powerBias sh blockSWI blockRN0
              (balanced_noise m blockSWI (np_cumsum (Fin 0 # steps)) blockN0)"
  have len: "length steps = 4"
    using collect_length[OF st] by simp
  have each: "\<forall>li < 4. \<exists>bounds.
        interswathBounds sh blockSWI n li = Inr bounds \<and> li + 1 < length fitCoefficients \<and>
        steps ! li = fl_sub (fitted_power (fitCoefficients ! (li + 1)) bounds)
                            (fitted_power (fitCoefficients ! li) bounds)"
  proof (intro allI impI)
    fix li :: nat assume li: "li < 4"
    then have "?rs ! li = Inr (steps ! li)"
      using collect_nth[OF st, of li] by simp
    moreover have "?rs ! li = power_step sh blockSWI n fitCoefficients li"
      using li by (auto simp: less_Suc_eq numeral_eq_Suc)
    ultimately have "power_step sh blockSWI n fitCoefficients li = Inr (steps ! li)"
      by simp
    then show "\<exists>bounds.
        interswathBounds sh blockSWI n li = Inr bounds \<and> li + 1 < length fitCoefficients \<and>
        steps ! li = fl_sub (fitted_power (fitCoefficients ! (li + 1)) bounds)
                            (fitted_power (fitCoefficients ! li) bounds)"
      by (auto simp: power_step_def and_then_Inr_iff split: if_splits)
  qed
  have c0: "np_cumsum (Fin 0 # steps) ! 0 = Fin 0"
    by (simp add: np_cumsum_def)
  have b0: "bp ! 0 = fl_add (Fin 0) ?bias"
    by (simp add: bp np_cumsum_def)
  have fin: "\<forall>ds \<beta>. steps = map Fin ds \<and> ?bias = Fin \<beta> \<longrightarrow>
        bp = map (\<lambda>k. Fin (sum_list (take k ds) + \<beta>)) [0..<5] \<and> bp ! 0 = Fin \<beta>"
  proof (intro allI impI)
    fix ds \<beta> assume a: "steps = map Fin ds \<and> ?bias = Fin \<beta>"
    then have s: "steps = map Fin ds" by (rule conjunct1)
    from a have b: "?bias = Fin \<beta>" by (rule conjunct2)
    from s len have l4: "length ds = 4" by auto
    have "bp = map (\<lambda>b. fl_add b (Fin \<beta>)) (np_cumsum (Fin 0 # steps))"
      using bp b by simp
    then have "bp = map (\<lambda>b. fl_add b (Fin \<beta>)) (np_cumsum (Fin 0 # map Fin ds))"
      using s by simp
    also have "\<dots> = map (\<lambda>k. Fin (sum_list (take k ds) + \<beta>)) [0..<Suc (length ds)]"
      unfolding np_cumsum_finite by (simp add: comp_def)
    finally have e: "bp = map (\<lambda>k. Fin (sum_list (take k ds) + \<beta>)) [0..<5]"
      using l4 by simp
    moreover have "bp ! 0 = Fin \<beta>"
      using b0 b by simp
    ultimately show "bp = map (\<lambda>k. Fin (sum_list (take k ds) + \<beta>)) [0..<5] \<and> bp ! 0 = Fin \<beta>"
      by simp
  qed
  show ?thesis
    by (rule exI[of _ steps], rule exI[of _ ?bias]) (intro conjI len each c0 refl bp b0 fin)
qed

subsection \<open>A sample block\<close>

text \<open>
  A block of two lines and ten pixels in mode EW, two pixels for each subswath. The
  fitted lines are flat: 0 in subswath 1 and 1 in the others. The scaled noise is 0
  and the raw noise 3 everywhere.
\<close>

definition block_swi :: indexmap where
  "block_swi = (\<lambda>y x. if x < 2 then 1 else if x < 4 then 2 else if x < 6 then 3
                        else if x < 8 then 4 else 5)"

definition block_fit :: "(fl \<times> fl) list" where
  "block_fit = [(Fin 0, Fin 0), (Fin 0, Fin 1), (Fin 0, Fin 1), (Fin 0, Fin 1), (Fin 0, Fin 1)]"

lemma subswaths_EW: "subswaths EW = [Suc 0, 2, 3, 4, 5]"
  by (simp add: subswaths_def numberOfSubswaths_def upt_rec)

lemma block_columns:
  "gradient_half_columns (2, 10) block_swi
     = [Suc 0, 2, 3, 4, 5, 6, 7, 8, Suc 0, 2, 3, 4, 5, 6, 7, 8]"
  by (simp add: gradient_half_columns_def block_swi_def upt_rec)

lemma block_bounds:
  "interswathBounds (2, 10) block_swi 2 0 = Inr (Fin (3 / 2))"
  "interswathBounds (2, 10) block_swi 2 (Suc 0) = Inr (Fin (7 / 2))"
  "interswathBounds (2, 10) block_swi 2 2 = Inr (Fin (11 / 2))"
  "interswathBounds (2, 10) block_swi 2 3 = Inr (Fin (15 / 2))"
  by (simp_all add: interswathBounds_def block_columns upt_rec np_mean_def np_sum_def)

lemma block_steps:
  "power_step (2, 10) block_swi 2 block_fit 0 = Inr (Fin 1)"
  "power_step (2, 10) block_swi 2 block_fit (Suc 0) = Inr (Fin 0)"
  "power_step (2, 10) block_swi 2 block_fit 2 = Inr (Fin 0)"
  "power_step (2, 10) block_swi 2 block_fit 3 = Inr (Fin 0)"
  by (simp_all add: power_step_def block_bounds and_then_def block_fit_def fitted_power_def
      fl_sub_def)

lemma block_cumulative:
  "np_cumsum [Fin 0, Fin 1, Fin 0, Fin 0, Fin 0] = [Fin 0, Fin 1, Fin 1, Fin 1, Fin 1]"
  by (simp add: np_cumsum_def)

lemma block_balanced:
  "balanced_noise EW block_swi [Fin 0, Fin 1, Fin 1, Fin 1, Fin 1] (\<lambda>y x. Fin 0)
     = (\<lambda>y x. if x < 2 then Fin 0 else Fin 1)"
  by (auto simp: balanced_noise_def subswaths_EW assign_where_def block_swi_def fun_eq_iff)

lemma block_bias:
  "powerBias (2, 10) block_swi (\<lambda>y x. Fin 3) (\<lambda>y x. if x < 2 then Fin 0 else Fin 1) = Fin 2"
  by (simp add: powerBias_def block_swi_def upt_rec nanmean_def np_sum_def fl_sub_def)

lemma block_balancingPower:
  "balancingPower EW (2, 10) 2 block_fit block_swi (\<lambda>y x. Fin 0) (\<lambda>y x. Fin 3)
     = Inr [Fin 2, Fin 3, Fin 3, Fin 3, Fin 3]"
  by (simp add: balancingPower_def block_steps and_then_def block_cumulative block_balanced
      block_bias)

text \<open>
  On the sample block the balancing power of subswath 1 is the bias 2, where claim C9
  has it zero.
\<close>

theorem balancingPower_first_not_zero:
  "balancingPower EW (2, 10) 2 block_fit block_swi (\<lambda>y x. Fin 0) (\<lambda>y x. Fin 3)
     = Inr [Fin 2, Fin 3, Fin 3, Fin 3, Fin 3] \<and>
   [Fin 2, Fin 3, Fin 3, Fin 3, Fin 3] ! 0 \<noteq> Fin 0"
  by (simp add: block_balancingPower)

theorem balancingPower_cumulative_plus_bias_witness:
  "balancingPower EW (2, 10) 2 block_fit block_swi (\<lambda>y x. Fin 0) (\<lambda>y x. Fin 3)
     = Inr [Fin 2, Fin 3, Fin 3, Fin 3, Fin 3] \<and>
   (\<exists>steps bias. length steps = 4 \<and>
      np_cumsum (Fin 0 # steps) ! 0 = Fin 0 \<and>
      [Fin 2, Fin 3, Fin 3, Fin 3, Fin 3] = map (\<lambda>b. fl_add b bias) (np_cumsum (Fin 0 # steps)) \<and>
      [Fin 2, Fin 3, Fin 3, Fin 3, Fin 3] ! 0 = fl_add (Fin 0) bias)"
proof -
  from balancingPower_cumulative_plus_bias[OF block_balancingPower]
  have "\<exists>steps bias. length steps = 4 \<and>
      np_cumsum (Fin 0 # steps) ! 0 = Fin 0 \<and>
      [Fin 2, Fin 3, Fin 3, Fin 3, Fin 3] = map (\<lambda>b. fl_add b bias) (np_cumsum (Fin 0 # steps)) \<and>
      [Fin 2, Fin 3, Fin 3, Fin 3, Fin 3] ! 0 = fl_add (Fin 0) bias"
  proof (elim exE conjE)
    fix steps bias
    assume "length steps = 4" "np_cumsum (Fin 0 # steps) ! 0 = Fin 0"
      "[Fin 2, Fin 3, Fin 3, Fin 3, Fin 3] = map (\<lambda>b. fl_add b bias) (np_cumsum (Fin 0 # steps))"
      "[Fin 2, Fin 3, Fin 3, Fin 3, Fin 3] ! 0 = fl_add (Fin 0) bias"
    then show ?thesis
      by (intro exI[of _ steps] exI[of _ bias] conjI)
  qed
  with block_balancingPower show ?thesis by (rule conjI)
qed


section \<open>Properties of the dense rasters\<close>



















end
